theory Spec2Isabelle
  imports Main "HOL-Library.Log_Nat"
begin

section \<open>Strings and paths\<close>

text \<open>
  Go strings are byte sequences; they are modelled as \<open>string\<close> (a list of 8-bit
  characters). The functions of the Go packages \<open>strings\<close> and \<open>path/filepath\<close>
  that the program calls are written out here the way the library computes them, with
  \<open>/\<close> as the only path separator and no volume names (the Unix build).
\<close>

type_synonym path = string

definition HasPrefix :: "string \<Rightarrow> string \<Rightarrow> bool" where
  "HasPrefix s p = (length p \<le> length s \<and> take (length p) s = p)"

definition HasSuffix :: "string \<Rightarrow> string \<Rightarrow> bool" where
  "HasSuffix s x = (length x \<le> length s \<and> drop (length s - length x) s = x)"

fun Contains :: "string \<Rightarrow> string \<Rightarrow> bool" where
  "Contains [] sub = (sub = [])"
| "Contains (c # cs) sub = (HasPrefix (c # cs) sub \<or> Contains cs sub)"

text \<open>
  \<open>strings.ToLower\<close>. The bytes \<open>A\<close> to \<open>Z\<close> are mapped to \<open>a\<close> to \<open>z\<close> and every
  other byte is kept. The program only compares lower-cased text with ASCII patterns
  (the supported extensions), and on those comparisons the byte-wise mapping agrees with
  Go's Unicode mapping.
\<close>

definition lowerByte :: "char \<Rightarrow> char" where
  "lowerByte c =
     (case map_of (zip ''ABCDEFGHIJKLMNOPQRSTUVWXYZ'' ''abcdefghijklmnopqrstuvwxyz'') c of
        None \<Rightarrow> c
      | Some l \<Rightarrow> l)"

definition ToLower :: "string \<Rightarrow> string" where
  "ToLower s = map lowerByte s"

text \<open>
  \<open>filepath.Ext\<close>: the loop runs from the last byte towards the first, stops at a
  separator with the empty result and at a dot with the suffix that starts there.
  \<open>extScan\<close> is that loop on the reversed path, \<open>acc\<close> the bytes already passed.
\<close>

fun extScan :: "string \<Rightarrow> string \<Rightarrow> string" where
  "extScan [] acc = []"
| "extScan (c # cs) acc =
     (if c = CHR ''/'' then []
      else if c = CHR ''.'' then c # acc
      else extScan cs (c # acc))"

definition Ext :: "path \<Rightarrow> string" where
  "Ext p = extScan (rev p) []"

text \<open>
  \<open>strings.Index\<close>: the index of the first instance of \<open>sub\<close>, or \<open>-1\<close>.
\<close>

fun Index :: "string \<Rightarrow> string \<Rightarrow> int" where
  "Index [] sub = (if sub = [] then 0 else - 1)"
| "Index (c # cs) sub =
     (if HasPrefix (c # cs) sub then 0
      else let i = Index cs sub in if i = - 1 then - 1 else i + 1)"

text \<open>
  \<open>strings.TrimSpace\<close> removes the leading and the trailing white space runes. The
  white space of Unicode is the six ASCII bytes and the runes U+0085, U+00A0, U+1680,
  U+2000 to U+200A, U+2028, U+2029, U+202F, U+205F and U+3000, listed here in their
  UTF-8 encodings.
\<close>

definition spaceRunes :: "string list" where
  "spaceRunes =
     [[CHR 0x09], [CHR 0x0A], [CHR 0x0B], [CHR 0x0C], [CHR 0x0D], [CHR 0x20],
      [CHR 0xC2, CHR 0x85], [CHR 0xC2, CHR 0xA0], [CHR 0xE1, CHR 0x9A, CHR 0x80],
      [CHR 0xE2, CHR 0x80, CHR 0x80], [CHR 0xE2, CHR 0x80, CHR 0x81],
      [CHR 0xE2, CHR 0x80, CHR 0x82], [CHR 0xE2, CHR 0x80, CHR 0x83],
      [CHR 0xE2, CHR 0x80, CHR 0x84], [CHR 0xE2, CHR 0x80, CHR 0x85],
      [CHR 0xE2, CHR 0x80, CHR 0x86], [CHR 0xE2, CHR 0x80, CHR 0x87],
      [CHR 0xE2, CHR 0x80, CHR 0x88], [CHR 0xE2, CHR 0x80, CHR 0x89],
      [CHR 0xE2, CHR 0x80, CHR 0x8A], [CHR 0xE2, CHR 0x80, CHR 0xA8],
      [CHR 0xE2, CHR 0x80, CHR 0xA9], [CHR 0xE2, CHR 0x80, CHR 0xAF],
      [CHR 0xE2, CHR 0x81, CHR 0x9F], [CHR 0xE3, CHR 0x80, CHR 0x80]]"

text \<open>The length of the first pattern that starts \<open>s\<close>, or 0 when none does.\<close>

fun matchLen :: "string list \<Rightarrow> string \<Rightarrow> nat" where
  "matchLen [] s = 0"
| "matchLen (w # ws) s = (if HasPrefix s w then length w else matchLen ws s)"

lemma matchLen_Nil: "matchLen ws [] = 0"
  by (induction ws) (auto simp: HasPrefix_def)

function trimLeft :: "string list \<Rightarrow> string \<Rightarrow> string" where
  "trimLeft ws s = (if matchLen ws s = 0 then s else trimLeft ws (drop (matchLen ws s) s))"
  by pat_completeness auto
termination
proof (relation "measure (\<lambda>(ws, s). length s)")
  show "wf (measure (\<lambda>(ws, s). length s))" by simp
next
  fix ws :: "string list" and s :: string
  assume "matchLen ws s \<noteq> 0"
  then have "s \<noteq> []" using matchLen_Nil by metis
  with \<open>matchLen ws s \<noteq> 0\<close>
  show "((ws, drop (matchLen ws s) s), (ws, s)) \<in> measure (\<lambda>(ws, s). length s)" by simp
qed

definition TrimSpace :: "string \<Rightarrow> string" where
  "TrimSpace s = rev (trimLeft (map rev spaceRunes) (rev (trimLeft spaceRunes s)))"

text \<open>
  \<open>strings.ReplaceAll\<close> for a non-empty \<open>old\<close>: the instances are replaced from the
  left and do not overlap. (The program passes one-byte strings; an empty \<open>old\<close>, which
  Go treats specially, does not occur and leaves the string as it is here.)
\<close>

fun ReplaceAll :: "string \<Rightarrow> string \<Rightarrow> string \<Rightarrow> string" where
  "ReplaceAll [] old new = []"
| "ReplaceAll (c # cs) old new =
     (if old \<noteq> [] \<and> HasPrefix (c # cs) old then new @ ReplaceAll (drop (length old - 1) cs) old new
      else c # ReplaceAll cs old new)"

definition TrimSuffix :: "string \<Rightarrow> string \<Rightarrow> string" where
  "TrimSuffix s suffix = (if HasSuffix s suffix then take (length s - length suffix) s else s)"

text \<open>\<open>filepath.Base\<close>: the last element of the path, trailing slashes removed first.\<close>

definition Base :: "path \<Rightarrow> string" where
  "Base p =
     (if p = [] then ''.''
      else let q = rev (dropWhile (\<lambda>c. c = CHR ''/'') (rev p));
               r = rev (takeWhile (\<lambda>c. c \<noteq> CHR ''/'') (rev q))
           in if r = [] then ''/'' else r)"

text \<open>The elements of a path: the pieces between the slashes.\<close>

fun splitSlash :: "string \<Rightarrow> string list" where
  "splitSlash [] = [[]]"
| "splitSlash (c # cs) =
     (if c = CHR ''/'' then [] # splitSlash cs
      else (case splitSlash cs of
              [] \<Rightarrow> [[c]]
            | e # es \<Rightarrow> (c # e) # es))"

text \<open>
  The loop of \<open>filepath.Clean\<close> over the elements: an empty element and a dot are
  dropped; two dots remove the element before them, stay at the head of a path that is
  not rooted, and are dropped at the root. \<open>out\<close> holds the elements written so far,
  the last one first.
\<close>

fun cleanElems :: "bool \<Rightarrow> string list \<Rightarrow> string list \<Rightarrow> string list" where
  "cleanElems rooted [] out = rev out"
| "cleanElems rooted (e # es) out =
     (if e = [] \<or> e = ''.'' then cleanElems rooted es out
      else if e = ''..'' then
        (case out of
           [] \<Rightarrow> if rooted then cleanElems rooted es [] else cleanElems rooted es [''..'']
         | x # xs \<Rightarrow>
             if x = ''..'' then cleanElems rooted es (''..'' # x # xs)
             else cleanElems rooted es xs)
      else cleanElems rooted es (e # out))"

fun joinSlash :: "string list \<Rightarrow> string" where
  "joinSlash [] = []"
| "joinSlash [e] = e"
| "joinSlash (e # es) = e @ ''/'' @ joinSlash es"

definition Clean :: "path \<Rightarrow> path" where
  "Clean p =
     (if p = [] then ''.''
      else let rooted = (hd p = CHR ''/'');
               body = joinSlash (cleanElems rooted (splitSlash p) [])
           in if rooted then CHR ''/'' # body
              else if body = [] then ''.'' else body)"

text \<open>\<open>filepath.Join\<close> of two elements, and \<open>filepath.Dir\<close>.\<close>

definition Join :: "path \<Rightarrow> path \<Rightarrow> path" where
  "Join a b =
     (if a \<noteq> [] then Clean (a @ ''/'' @ b)
      else if b \<noteq> [] then Clean b
      else [])"

definition Dir :: "path \<Rightarrow> path" where
  "Dir p = Clean (rev (dropWhile (\<lambda>c. c \<noteq> CHR ''/'') (rev p)))"

section \<open>The transcript and its formatters\<close>

text \<open>
  A finite \<open>float64\<close> is an integer mantissa and a binary exponent: \<open>F64 m e\<close> is the
  number \<open>m * 2 ^ e\<close>. The arithmetic below is that of IEEE 754 in the default rounding
  mode (to nearest, ties to even) for results in the normal range of the format;
  infinities, NaN, subnormal results and conversions beyond the 64-bit integers are not
  modelled.
\<close>

datatype f64 = F64 int int

text \<open>\<open>m / 2 ^ s\<close> for \<open>m \<ge> 0\<close>, rounded to the nearest integer, ties to even.\<close>

definition roundShift :: "int \<Rightarrow> nat \<Rightarrow> int" where
  "roundShift m s =
     (let q = m div 2 ^ s; r = m mod 2 ^ s in
      if 2 ^ s < 2 * r \<or> (2 * r = 2 ^ s \<and> odd q) then q + 1 else q)"

text \<open>The double nearest to \<open>m * 2 ^ e\<close>: at most 53 significant bits are kept.\<close>

definition f64_round :: "int \<Rightarrow> int \<Rightarrow> f64" where
  "f64_round m e =
     (let s = bitlen \<bar>m\<bar> - 53 in
      if s \<le> 0 then F64 m e else F64 (sgn m * roundShift \<bar>m\<bar> (nat s)) (e + s))"

fun f64_mul :: "f64 \<Rightarrow> f64 \<Rightarrow> f64" where
  "f64_mul (F64 m1 e1) (F64 m2 e2) = f64_round (m1 * m2) (e1 + e2)"

definition f64_of_int :: "int \<Rightarrow> f64" where
  "f64_of_int n = f64_round n 0"

text \<open>Go's conversion \<open>int(f)\<close>: the fraction is discarded (truncation towards zero).\<close>

fun f64_to_int :: "f64 \<Rightarrow> int" where
  "f64_to_int (F64 m e) =
     (if 0 \<le> e then m * 2 ^ nat e else sgn m * (\<bar>m\<bar> div 2 ^ nat (- e)))"

text \<open>
  The double that a decimal literal denotes, as \<open>strconv.ParseFloat\<close> and the JSON
  decoder read it: the double nearest to \<open>d / 10 ^ k\<close>. The quotient is taken with at
  least 55 bits and a last bit that records a non-zero remainder, so that rounding it
  rounds the exact value.
\<close>

definition f64_of_decimal :: "int \<Rightarrow> nat \<Rightarrow> f64" where
  "f64_of_decimal d k =
     (let t = nat (max 0 (55 + bitlen (10 ^ k) - bitlen \<bar>d\<bar>));
          n = \<bar>d\<bar> * 2 ^ t;
          sticky = (if n mod 10 ^ k = 0 then 0 else 1)
      in f64_round (sgn d * (2 * (n div 10 ^ k) + sticky)) (- int t - 1))"

text \<open>Go's integer division and remainder truncate towards zero.\<close>

definition quo :: "int \<Rightarrow> int \<Rightarrow> int" where
  "quo a b = sgn a * sgn b * (\<bar>a\<bar> div \<bar>b\<bar>)"

definition rem :: "int \<Rightarrow> int \<Rightarrow> int" where
  "rem a b = a - b * quo a b"

text \<open>The decimal digits of a natural number, as the verb \<open>%d\<close> prints them.\<close>

fun digits :: "nat \<Rightarrow> string" where
  "digits n =
     (if n < 10 then [''0123456789'' ! n]
      else digits (n div 10) @ [''0123456789'' ! (n mod 10)])"

text \<open>
  The verb \<open>%0wd\<close>: the sign of a negative number, then zeros up to the width \<open>w\<close>,
  then the digits. \<open>%d\<close> is the width 0.
\<close>

definition sprintd :: "nat \<Rightarrow> int \<Rightarrow> string" where
  "sprintd w n =
     (let ds = digits (nat \<bar>n\<bar>); sign = (if n < 0 then ''-'' else []) in
      sign @ replicate (w - length sign - length ds) (CHR ''0'') @ ds)"

record Segment =
  Start :: f64
  End :: f64
  Text :: string

record TranscriptionResult =
  FullText :: string
  Language :: string
  Segments :: "Segment list"

definition formatLRCTimestamp :: "f64 \<Rightarrow> string" where
  "formatLRCTimestamp seconds =
     (let totalMs = f64_to_int (f64_mul seconds (f64_of_int 1000));
          mins = quo totalMs 60000;
          secs = quo (rem totalMs 60000) 1000;
          centisecs = quo (rem totalMs 1000) 10
      in sprintd 2 mins @ '':'' @ sprintd 2 secs @ ''.'' @ sprintd 2 centisecs)"

definition formatSRTTimestamp :: "f64 \<Rightarrow> string" where
  "formatSRTTimestamp seconds =
     (let totalMs = f64_to_int (f64_mul seconds (f64_of_int 1000));
          hours = quo totalMs 3600000;
          mins = quo (rem totalMs 3600000) 60000;
          secs = quo (rem totalMs 60000) 1000;
          ms = rem totalMs 1000
      in sprintd 2 hours @ '':'' @ sprintd 2 mins @ '':'' @ sprintd 2 secs @ '','' @ sprintd 3 ms)"

text \<open>The line feed that the source writes as a backslash and the letter n.\<close>

definition nl :: string where
  "nl = [CHR 0x0A]"

text \<open>The loop of the LRC formatter: one line for each segment.\<close>

fun lrcLines :: "Segment list \<Rightarrow> string" where
  "lrcLines [] = []"
| "lrcLines (seg # segs) =
     (let timestamp = formatLRCTimestamp (Start seg); text = TrimSpace (Text seg) in
      ''['' @ timestamp @ '']'' @ text @ nl @ lrcLines segs)"

definition LRCFormat :: "TranscriptionResult \<Rightarrow> string" where
  "LRCFormat result =
     ''[re:whisper-lrc]'' @ nl @
     (if Language result \<noteq> [] then ''[la:'' @ Language result @ '']'' @ nl else []) @
     nl @ lrcLines (Segments result)"

text \<open>The loop of the SRT formatter; \<open>i\<close> is the index of the first segment left.\<close>

fun srtBlocks :: "nat \<Rightarrow> Segment list \<Rightarrow> string" where
  "srtBlocks i [] = []"
| "srtBlocks i (seg # segs) =
     (let startTS = formatSRTTimestamp (Start seg);
          endTS = formatSRTTimestamp (End seg);
          text = TrimSpace (Text seg)
      in sprintd 0 (int i + 1) @ nl @ startTS @ '' --> '' @ endTS @ nl @ text @ nl @ nl @
         srtBlocks (i + 1) segs)"

definition SRTFormat :: "TranscriptionResult \<Rightarrow> string" where
  "SRTFormat result = srtBlocks 0 (Segments result)"

text \<open>The two implementations of the interface \<open>Formatter\<close>.\<close>

datatype Formatter = LRCFormatter | SRTFormatter

fun Format :: "Formatter \<Rightarrow> TranscriptionResult \<Rightarrow> string" where
  "Format LRCFormatter result = LRCFormat result"
| "Format SRTFormatter result = SRTFormat result"

text \<open>The transcript of the example: two segments, at 0.5, 3.2 and 5.8 seconds.\<close>

definition rickSegments :: "Segment list" where
  "rickSegments =
     [\<lparr>Start = f64_of_decimal 5 1, End = f64_of_decimal 32 1, Text = ''Never gonna give you up''\<rparr>,
      \<lparr>Start = f64_of_decimal 32 1, End = f64_of_decimal 58 1, Text = ''Never gonna let you down''\<rparr>]"

section \<open>Input resolution\<close>

text \<open>
  The repository holds two versions of the input handler. The embedding follows the one
  whose direct download has the redirect policy, the check for HTML and the choice of
  the extension, and which creates the temporary file after these checks.

  A cleanup closure of the source is one of two function literals: the one that removes
  the temporary file of a direct download and the one that removes the temporary
  directory of a video extraction. A nil closure is \<open>None\<close>.
\<close>

datatype cleanup = RemoveFile path | RemoveDir path

text \<open>The error of \<open>client.Get\<close>, wrapped by the source as "failed to download".\<close>

datatype get_error = TooManyRedirects | Transport string

text \<open>The two "yt-dlp" failures after the temporary directory exists.\<close>

datatype extraction = ToolExit string string | NoAudioFound

text \<open>
  One constructor for each \<open>fmt.Errorf\<close> of the input handler, named after the error
  kinds of the specification, with the values the message is formatted from.
\<close>

datatype error =
    NotFound path
  | AccessError string
  | InvalidInput path
  | UnsupportedFormat string
  | GetFailed get_error
  | DownloadFailed nat
  | UnexpectedContent
  | TempFileFailed string
  | SaveFailed string
  | ToolNotFound
  | TempDirFailed string
  | ExtractionFailed extraction
  | TranscriptionFailed string
  | MkdirFailed string
  | WriteFailed string

text \<open>
  The three results of a Go resolver: the path, the cleanup closure and the error. A nil
  error is \<open>None\<close>.
\<close>

type_synonym resolved = "path \<times> cleanup option \<times> error option"

text \<open>The result of \<open>os.Stat\<close>: no such file, another error, or the file information.\<close>

datatype stat_result = StatNotExist | StatError string | StatInfo bool

definition supportedExtensions :: "string list" where
  "supportedExtensions = [''.mp3'', ''.wav'', ''.m4a'', ''.flac'', ''.ogg'', ''.webm'', ''.mp4'']"

definition supported :: "string \<Rightarrow> bool" where
  "supported ext = (ext \<in> set supportedExtensions)"

definition resolveLocalFile :: "stat_result \<Rightarrow> path \<Rightarrow> resolved" where
  "resolveLocalFile st p =
     (case st of
        StatNotExist \<Rightarrow> ([], None, Some (NotFound p))
      | StatError e \<Rightarrow> ([], None, Some (AccessError e))
      | StatInfo isDir \<Rightarrow>
          if isDir then ([], None, Some (InvalidInput p))
          else let ext = ToLower (Ext p) in
            if \<not> supported ext then ([], None, Some (UnsupportedFormat ext))
            else (p, None, None))"

text \<open>
  The calls that change the file system, in the order the program makes them.
  \<open>Exec\<close> is the run of an external command with its arguments.
\<close>

datatype event =
    CreateTemp path
  | MkdirTemp path
  | Remove path
  | RemoveAll path
  | Exec "string list"
  | MkdirAll path
  | WriteFile path string

text \<open>Running a cleanup closure: the one call in its body.\<close>

fun runCleanup :: "cleanup \<Rightarrow> event list" where
  "runCleanup (RemoveFile tmpPath) = [Remove tmpPath]"
| "runCleanup (RemoveDir tmpDir) = [RemoveAll tmpDir]"

text \<open>
  What the program reads of an HTTP response: the status code, the Content-Type header,
  and the URL of the request that was answered (after redirects), as a string and its
  path component.
\<close>

record response =
  StatusCode :: nat
  ContentType :: string
  URLString :: string
  URLPath :: string

text \<open>
  What a server does with one request: it redirects, it answers, or the transport
  fails.
\<close>

datatype exchange = Redirect | Answer response | NetError string

text \<open>
  The world around the processing of one input: the results of the calls the program
  makes to the operating system, the network and the transcription service.
  \<open>extOrder\<close> is the order in which \<open>range\<close> visits the keys of
  \<open>supportedExtensions\<close> (Go leaves the iteration order of a map open).
  \<open>createTemp\<close> is the error of \<open>os.CreateTemp\<close> or the random part of the new
  name, \<open>TempDir\<close> the result of \<open>os.TempDir\<close>.
\<close>

record world =
  stat :: stat_result
  http :: "exchange list"
  extOrder :: "string list"
  TempDir :: path
  createTemp :: "string + string"
  copyErr :: "string option"
  lookPath :: bool
  mkdirTemp :: "string + path"
  ytdlpErr :: "string option"
  ytdlpOutput :: string
  globFiles :: "path list"
  globErr :: "string option"
  transcribe :: "path \<Rightarrow> string \<Rightarrow> string \<Rightarrow> string + TranscriptionResult"
  mkdirAll :: "string option"
  writeFile :: "string option"

text \<open>
  The \<open>CheckRedirect\<close> policy of the download client: \<open>via\<close> is the number of
  requests made already; the result tells whether the policy returns its error.
\<close>

definition CheckRedirect :: "nat \<Rightarrow> bool" where
  "CheckRedirect via = (via \<ge> 10)"

text \<open>
  \<open>client.Get\<close>, as \<open>net/http\<close> documents it: the client sends a request; on a
  redirect it asks the policy, with the requests made already (the one just answered
  included), and either stops with the policy's error or sends the next request.
  \<open>reqs\<close> counts the requests sent before the current one.
\<close>

fun clientGet :: "nat \<Rightarrow> exchange list \<Rightarrow> get_error + response" where
  "clientGet reqs [] = Inl (Transport ''EOF'')"
| "clientGet reqs (NetError e # rest) = Inl (Transport e)"
| "clientGet reqs (Answer resp # rest) = Inr resp"
| "clientGet reqs (Redirect # rest) =
     (if CheckRedirect (Suc reqs) then Inl TooManyRedirects else clientGet (Suc reqs) rest)"

definition contentTypeMap :: "(string \<times> string) list" where
  "contentTypeMap =
     [(''audio/mpeg'', ''.mp3''),
      (''audio/mp3'', ''.mp3''),
      (''audio/wav'', ''.wav''),
      (''audio/x-wav'', ''.wav''),
      (''audio/wave'', ''.wav''),
      (''audio/mp4'', ''.m4a''),
      (''audio/x-m4a'', ''.m4a''),
      (''audio/m4a'', ''.m4a''),
      (''audio/aac'', ''.m4a''),
      (''audio/flac'', ''.flac''),
      (''audio/x-flac'', ''.flac''),
      (''audio/ogg'', ''.ogg''),
      (''audio/webm'', ''.webm''),
      (''video/mp4'', ''.mp4''),
      (''video/webm'', ''.webm''),
      (''application/ogg'', ''.ogg''),
      (''application/octet-stream'', [])]"

text \<open>The content type with its parameters stripped, as the map is asked for it.\<close>

definition stripParams :: "string \<Rightarrow> string" where
  "stripParams contentType =
     (let idx = Index contentType '';'' in
      if idx \<noteq> - 1 then TrimSpace (take (nat idx) contentType) else contentType)"

text \<open>The test of the loop body for one extension.\<close>

definition urlMatches :: "string \<Rightarrow> string \<Rightarrow> string \<Rightarrow> bool" where
  "urlMatches urlPath finalURL ext =
     (HasSuffix (ToLower urlPath) ext \<or>
      Contains (ToLower finalURL) (ext @ ''?'') \<or>
      Contains (ToLower finalURL) (ext @ ''&''))"

text \<open>The loop over the supported extensions, in the order the runtime visits them.\<close>

fun urlExtension :: "string list \<Rightarrow> string \<Rightarrow> string \<Rightarrow> string option" where
  "urlExtension [] urlPath finalURL = None"
| "urlExtension (ext # exts) urlPath finalURL =
     (if urlMatches urlPath finalURL ext then Some ext
      else urlExtension exts urlPath finalURL)"

definition getAudioExtension :: "string list \<Rightarrow> response \<Rightarrow> string" where
  "getAudioExtension order resp =
     (let contentType = stripParams (ContentType resp);
          fallback = (case urlExtension order (URLPath resp) (URLString resp) of
                        Some ext \<Rightarrow> ext
                      | None \<Rightarrow> ''.mp3'')
      in case map_of contentTypeMap contentType of
           Some ext \<Rightarrow> if ext \<noteq> [] then ext else fallback
         | None \<Rightarrow> fallback)"

text \<open>
  The name \<open>os.CreateTemp\<close> gives the file for the pattern \<open>whisper-lrc-*ext\<close>: the
  random string stands where the star is, and the name is put after the temporary
  directory, with a separator unless the directory ends in one.
\<close>

definition tempFileName :: "path \<Rightarrow> string \<Rightarrow> string \<Rightarrow> path" where
  "tempFileName dir rnd ext =
     (if dir \<noteq> [] \<and> last dir = CHR ''/'' then dir else dir @ ''/'') @
     ''whisper-lrc-'' @ rnd @ ext"

definition downloadDirect :: "world \<Rightarrow> string \<Rightarrow> resolved \<times> event list" where
  "downloadDirect w inputURL =
     (case clientGet 0 (http w) of
        Inl e \<Rightarrow> (([], None, Some (GetFailed e)), [])
      | Inr resp \<Rightarrow>
          if StatusCode resp \<noteq> 200 then (([], None, Some (DownloadFailed (StatusCode resp))), [])
          else if HasPrefix (ContentType resp) ''text/html'' then
            (([], None, Some UnexpectedContent), [])
          else
            let ext = getAudioExtension (extOrder w) resp in
            (case createTemp w of
               Inl e \<Rightarrow> (([], None, Some (TempFileFailed e)), [])
             | Inr rnd \<Rightarrow>
                 let tmpPath = tempFileName (TempDir w) rnd ext;
                     cleanup = RemoveFile tmpPath
                 in (case copyErr w of
                       Some e \<Rightarrow>
                         (([], None, Some (SaveFailed e)), CreateTemp tmpPath # runCleanup cleanup)
                     | None \<Rightarrow> ((tmpPath, Some cleanup, None), [CreateTemp tmpPath]))))"

definition ytdlpArgs :: "path \<Rightarrow> string \<Rightarrow> string list" where
  "ytdlpArgs tmpDir url =
     [''yt-dlp'', ''-x'', ''--audio-format'', ''mp3'', ''--audio-quality'', ''0'',
      ''-o'', Join tmpDir ''audio.%(ext)s'', ''--no-playlist'', url]"

definition downloadWithYtDlp :: "world \<Rightarrow> string \<Rightarrow> resolved \<times> event list" where
  "downloadWithYtDlp w url =
     (if \<not> lookPath w then (([], None, Some ToolNotFound), [])
      else case mkdirTemp w of
        Inl e \<Rightarrow> (([], None, Some (TempDirFailed e)), [])
      | Inr tmpDir \<Rightarrow>
          let cleanup = RemoveDir tmpDir;
              run = [MkdirTemp tmpDir, Exec (ytdlpArgs tmpDir url)]
          in (case ytdlpErr w of
                Some e \<Rightarrow>
                  (([], None, Some (ExtractionFailed (ToolExit e (ytdlpOutput w)))),
                   run @ runCleanup cleanup)
              | None \<Rightarrow>
                  if globErr w \<noteq> None \<or> length (globFiles w) = 0 then
                    (([], None, Some (ExtractionFailed NoAudioFound)), run @ runCleanup cleanup)
                  else ((hd (globFiles w), Some cleanup, None), run)))"

definition ytPatterns :: "string list" where
  "ytPatterns =
     [''youtube.com/watch'', ''youtu.be/'', ''youtube.com/shorts/'', ''youtube.com/live/'',
      ''music.youtube.com/watch'']"

definition isYouTubeURL :: "string \<Rightarrow> bool" where
  "isYouTubeURL url = list_ex (\<lambda>pattern. Contains url pattern) ytPatterns"

record Handler =
  useYtDlp :: bool

definition NewHandler :: "bool \<Rightarrow> Handler" where
  "NewHandler b = \<lparr>useYtDlp = b\<rparr>"

definition resolveURL :: "Handler \<Rightarrow> world \<Rightarrow> string \<Rightarrow> resolved \<times> event list" where
  "resolveURL h w url =
     (if useYtDlp h \<and> isYouTubeURL url then downloadWithYtDlp w url
      else downloadDirect w url)"

text \<open>The scheme test that \<open>Resolve\<close> and \<open>getOutputPath\<close> both make.\<close>

definition isURL :: "string \<Rightarrow> bool" where
  "isURL input = (HasPrefix input ''http://'' \<or> HasPrefix input ''https://'')"

definition Resolve :: "Handler \<Rightarrow> world \<Rightarrow> string \<Rightarrow> resolved \<times> event list" where
  "Resolve h w input =
     (if isURL input then resolveURL h w input
      else (resolveLocalFile (stat w) input, []))"

text \<open>
  The temporary files and directories that a sequence of calls leaves behind, newest
  first: a creation adds its path, a removal takes it away.
\<close>

fun leftBehind :: "event list \<Rightarrow> path list \<Rightarrow> path list" where
  "leftBehind [] fs = fs"
| "leftBehind (CreateTemp p # evs) fs = leftBehind evs (p # fs)"
| "leftBehind (MkdirTemp d # evs) fs = leftBehind evs (d # fs)"
| "leftBehind (Remove p # evs) fs = leftBehind evs (removeAll p fs)"
| "leftBehind (RemoveAll d # evs) fs = leftBehind evs (removeAll d fs)"
| "leftBehind (e # evs) fs = leftBehind evs fs"

text \<open>
  The cleanup closures a sequence of calls has run: the source calls \<open>os.Remove\<close> and
  \<open>os.RemoveAll\<close> nowhere but in the bodies of the two closures.
\<close>

fun invoked :: "event list \<Rightarrow> cleanup list" where
  "invoked [] = []"
| "invoked (Remove p # evs) = RemoveFile p # invoked evs"
| "invoked (RemoveAll d # evs) = RemoveDir d # invoked evs"
| "invoked (e # evs) = invoked evs"

text \<open>
  The order of the specification, in its words: (1) the exact lookup in the table of
  content types; (2) if the content type is the generic octet-stream or absent, the
  final URL is inspected for a known extension; (3) the default otherwise. It is
  compared with \<open>getAudioExtension\<close> below.
\<close>

definition spec_getAudioExtension :: "string list \<Rightarrow> response \<Rightarrow> string" where
  "spec_getAudioExtension order resp =
     (let contentType = stripParams (ContentType resp) in
      case map_of contentTypeMap contentType of
        Some ext \<Rightarrow>
          if ext \<noteq> [] then ext
          else (case urlExtension order (URLPath resp) (URLString resp) of
                  Some e \<Rightarrow> e
                | None \<Rightarrow> ''.mp3'')
      | None \<Rightarrow>
          if contentType = ''application/octet-stream'' \<or> contentType = [] then
            (case urlExtension order (URLPath resp) (URLString resp) of
               Some e \<Rightarrow> e
             | None \<Rightarrow> ''.mp3'')
          else ''.mp3'')"

text \<open>The table gives no extension: the key is missing or its entry is empty.\<close>

definition lookupMisses :: "response \<Rightarrow> bool" where
  "lookupMisses resp =
     (map_of contentTypeMap (stripParams (ContentType resp)) = None \<or>
      map_of contentTypeMap (stripParams (ContentType resp)) = Some [])"

text \<open>Sample responses and a sample world, for the concrete cases below.\<close>

definition mpegResponse :: response where
  "mpegResponse = \<lparr>StatusCode = 200, ContentType = ''audio/mpeg'',
     URLString = ''https://example.com/download?id=7'', URLPath = ''/download''\<rparr>"

definition flacResponse :: response where
  "flacResponse = \<lparr>StatusCode = 200, ContentType = ''application/octet-stream'',
     URLString = ''https://cdn.example.com/a/song.flac?token=x'', URLPath = ''/a/song.flac''\<rparr>"

definition plainResponse :: response where
  "plainResponse = \<lparr>StatusCode = 200, ContentType = ''text/plain'',
     URLString = ''https://example.com/a/song.flac'', URLPath = ''/a/song.flac''\<rparr>"

definition htmlResponse :: response where
  "htmlResponse = \<lparr>StatusCode = 200, ContentType = ''text/html; charset=utf-8'',
     URLString = ''https://example.com/sorry'', URLPath = ''/sorry''\<rparr>"

definition missingResponse :: response where
  "missingResponse = \<lparr>StatusCode = 404, ContentType = ''text/html'',
     URLString = ''https://example.com/gone.mp3'', URLPath = ''/gone.mp3''\<rparr>"

section \<open>The batch orchestrator\<close>

text \<open>
  The characters that \<open>sanitizeFilename\<close> replaces: the slash, the backslash, the
  colon, the star, the question mark, the double quote, the angle brackets and the bar.
\<close>

definition invalid :: "string list" where
  "invalid = [''/'', [CHR 0x5C], '':'', ''*'', ''?'', [CHR 0x22], ''<'', ''>'', ''|'']"

definition sanitizeFilename :: "string \<Rightarrow> string" where
  "sanitizeFilename name = fold (\<lambda>char result. ReplaceAll result char ''_'') invalid name"

definition getOutputPath :: "string \<Rightarrow> string \<Rightarrow> string \<Rightarrow> path" where
  "getOutputPath input outputDir format =
     (let base = Base input;
          ext = Ext base;
          name = TrimSuffix base ext;
          name = (if isURL input then
                    (let name = sanitizeFilename name in if name = [] then ''output'' else name)
                  else name);
          dir = (if outputDir = [] then (if isURL input then ''.'' else Dir input)
                 else outputDir)
      in Join dir (name @ ''.'' @ format))"

text \<open>
  The progress tracker. The channel \<open>done\<close> (the field \<open>doneChan\<close>) is open or closed; closing a closed channel
  panics. The field \<open>errors\<close> holds the input and the error that the source formats
  into one string. \<open>printed\<close> is not a field of the struct: it is the sequence of
  persistent lines that \<open>printCompleted\<close> and \<open>printError\<close> have written to the
  standard output. The background loop \<open>render\<close> only reads the struct and is left out.
\<close>

datatype chan = Open | Closed

datatype line = Completed string path | Errored string error

record Tracker =
  total :: int
  current :: int
  fileName :: string
  status :: string
  errors :: "(string \<times> error) list"
  completed :: "(string \<times> path) list"
  doneChan :: chan
  started :: bool
  printed :: "line list"

definition NewTracker :: "int \<Rightarrow> Tracker" where
  "NewTracker n =
     \<lparr>total = n, current = 0, fileName = [], status = [], errors = [], completed = [],
      doneChan = Open, started = False, printed = []\<rparr>"

definition Start :: "Tracker \<Rightarrow> Tracker" where
  "Start t = t\<lparr>started := True\<rparr>"

text \<open>\<open>Stop\<close>; the result \<open>None\<close> is the panic of closing a closed channel.\<close>

definition Stop :: "Tracker \<Rightarrow> Tracker option" where
  "Stop t =
     (if started t then
        (case doneChan t of
           Closed \<Rightarrow> None
         | Open \<Rightarrow> Some (t\<lparr>doneChan := Closed, started := False\<rparr>))
      else Some t)"

definition SetCurrent :: "Tracker \<Rightarrow> int \<Rightarrow> string \<Rightarrow> Tracker" where
  "SetCurrent t index name = t\<lparr>current := index, fileName := name, status := ''Processing...''\<rparr>"

definition SetStatus :: "Tracker \<Rightarrow> string \<Rightarrow> Tracker" where
  "SetStatus t s = t\<lparr>status := s\<rparr>"

definition Complete :: "Tracker \<Rightarrow> string \<Rightarrow> path \<Rightarrow> Tracker" where
  "Complete t input output =
     t\<lparr>completed := completed t @ [(input, output)],
       printed := printed t @ [Completed input output]\<rparr>"

definition Error :: "Tracker \<Rightarrow> string \<Rightarrow> error \<Rightarrow> Tracker" where
  "Error t input err =
     t\<lparr>errors := errors t @ [(input, err)], printed := printed t @ [Errored input err]\<rparr>"

text \<open>
  The configuration of a run: the flags, and the value of the environment variable
  \<open>OPENAI_API_KEY\<close>.
\<close>

record config =
  apiKey :: string
  envKey :: string
  outputFormat :: string
  outputDir :: string
  language :: string
  prompt :: string
  ytDlpFlag :: bool

definition DefaultPrompt :: string where
  "DefaultPrompt = ''Transcribe only the actual sung or spoken lyrics. Do not add metadata such as composer, lyricist, arranger, artist names, song titles, or credits. If there is silence or instrumental sections, output nothing for those parts.''"

text \<open>The statement \<open>if cleanup != nil { cleanup() }\<close>.\<close>

fun callIfNotNil :: "cleanup option \<Rightarrow> event list" where
  "callIfNotNil None = []"
| "callIfNotNil (Some cleanup) = runCleanup cleanup"

text \<open>
  The body of the loop after a successful resolution, up to the place where every
  branch either records the error or reports the completion: the error of the failing
  stage or the output path, and the calls made.
\<close>

definition pipeline ::
  "config \<Rightarrow> Formatter \<Rightarrow> world \<Rightarrow> string \<Rightarrow> path \<Rightarrow> cleanup option \<Rightarrow> (error + path) \<times> event list"
where
  "pipeline cfg formatter w arg audioPath cleanup =
     (let effectivePrompt = (if prompt cfg = [] then DefaultPrompt else prompt cfg) in
      case transcribe w audioPath (language cfg) effectivePrompt of
        Inl e \<Rightarrow> (Inl (TranscriptionFailed e), callIfNotNil cleanup)
      | Inr result \<Rightarrow>
          let content = Format formatter result;
              outPath = getOutputPath arg (outputDir cfg) (outputFormat cfg)
          in (case mkdirAll w of
                Some e \<Rightarrow> (Inl (MkdirFailed e), callIfNotNil cleanup)
              | None \<Rightarrow>
                  (case writeFile w of
                     Some e \<Rightarrow>
                       (Inl (WriteFailed e), MkdirAll (Dir outPath) # callIfNotNil cleanup)
                   | None \<Rightarrow>
                       (Inr outPath,
                        [MkdirAll (Dir outPath), WriteFile outPath content] @
                        callIfNotNil cleanup))))"

text \<open>
  The variables of the loop: the list \<open>errors\<close>, the tracker, and the calls made so
  far.
\<close>

type_synonym loop_state = "(string \<times> error) list \<times> Tracker \<times> event list"

text \<open>One pass of the loop body, for the input \<open>arg\<close> at index \<open>i\<close> in the world \<open>w\<close>.\<close>

definition iteration ::
  "config \<Rightarrow> Handler \<Rightarrow> Formatter \<Rightarrow> nat \<Rightarrow> string \<Rightarrow> world \<Rightarrow> loop_state \<Rightarrow> loop_state"
where
  "iteration cfg h formatter i arg w st =
     (case st of (errs, tracker, evs) \<Rightarrow>
        let t1 = SetCurrent tracker (int i + 1) (Base arg) in
        (case Resolve h w arg of
           ((audioPath, cleanup, Some err), evs1) \<Rightarrow>
             (errs @ [(arg, err)], Error t1 arg err, evs @ evs1)
         | ((audioPath, cleanup, None), evs1) \<Rightarrow>
             let t2 = SetStatus t1 ''Transcribing...'' in
             (case pipeline cfg formatter w arg audioPath cleanup of
                (Inl err, evs2) \<Rightarrow> (errs @ [(arg, err)], Error t2 arg err, evs @ evs1 @ evs2)
              | (Inr outPath, evs2) \<Rightarrow> (errs, Complete t2 arg outPath, evs @ evs1 @ evs2))))"

fun loop ::
  "config \<Rightarrow> Handler \<Rightarrow> Formatter \<Rightarrow> nat \<Rightarrow> (string \<times> world) list \<Rightarrow> loop_state \<Rightarrow> loop_state"
where
  "loop cfg h formatter i [] st = st"
| "loop cfg h formatter i ((arg, w) # rest) st =
     loop cfg h formatter (Suc i) rest (iteration cfg h formatter i arg w st)"

text \<open>The errors that \<open>runExtract\<close> itself returns.\<close>

datatype run_error = MissingKey | InvalidFormat string | SomeFailed

text \<open>
  How a run ends: it panics, or \<open>runExtract\<close> returns its error (or nil) with the list
  of failures, the tracker and the calls made. Each input comes with the world it is
  processed in.
\<close>

datatype run = Panic | Returned "run_error option" "(string \<times> error) list" Tracker "event list"

text \<open>
  The batch: \<open>runExtract\<close> from the initialisation of its components to its end, for
  a configuration whose format has been validated and put in lower case. The
  deferred \<open>Stop\<close> runs when the function returns.
\<close>

definition runBatch :: "config \<Rightarrow> (string \<times> world) list \<Rightarrow> run" where
  "runBatch cfg items =
     (let inputHandler = NewHandler (ytDlpFlag cfg);
          formatter = (if outputFormat cfg = ''lrc'' then LRCFormatter else SRTFormatter);
          tracker = Start (NewTracker (int (length items)))
      in case loop cfg inputHandler formatter 0 items ([], tracker, []) of
           (errs, tracker, evs) \<Rightarrow>
             (case Stop tracker of
                None \<Rightarrow> Panic
              | Some tracker \<Rightarrow>
                  let err = (if length errs > 0 then Some SomeFailed else None) in
                  (case Stop tracker of
                     None \<Rightarrow> Panic
                   | Some tracker \<Rightarrow> Returned err errs tracker evs)))"

text \<open>
  \<open>runExtract\<close>: the two checks of the configuration, which return before a tracker
  exists, and then the batch.
\<close>

definition runExtract :: "config \<Rightarrow> (string \<times> world) list \<Rightarrow> run" where
  "runExtract cfg items =
     (let key = (if apiKey cfg = [] then envKey cfg else apiKey cfg) in
      if key = [] then Returned (Some MissingKey) [] (NewTracker 0) []
      else
        let fmt = ToLower (outputFormat cfg) in
        if fmt \<noteq> ''lrc'' \<and> fmt \<noteq> ''srt'' then
          Returned (Some (InvalidFormat fmt)) [] (NewTracker 0) []
        else runBatch (cfg\<lparr>outputFormat := fmt\<rparr>) items)"

text \<open>
  The exit status of a run: \<open>Execute\<close> exits with 1 when the command returns an
  error; a panic ends a Go program with the status 2.
\<close>

fun exitStatus :: "run \<Rightarrow> nat" where
  "exitStatus Panic = 2"
| "exitStatus (Returned err errs tracker evs) = (if err \<noteq> None then 1 else 0)"

text \<open>
  \<open>Execute\<close>: the command is declared with \<open>Args: cobra.MinimumNArgs(1)\<close>, so with
  no input the command returns an error before \<open>runExtract\<close> is called, and the process
  exits with 1; otherwise the status is that of the run. (The parsing of the flags into
  the configuration is not modelled.)
\<close>

definition Execute :: "config \<Rightarrow> (string \<times> world) list \<Rightarrow> nat" where
  "Execute cfg items =
     (if length items < 1 then 1 else exitStatus (runExtract cfg items))"

text \<open>A sample world, in which every call succeeds and no server answers.\<close>

definition calm :: world where
  "calm =
     \<lparr>stat = StatInfo False, http = [], extOrder = supportedExtensions, TempDir = ''/tmp'',
      createTemp = Inr ''314159'', copyErr = None, lookPath = True,
      mkdirTemp = Inr ''/tmp/whisper-lrc-ytdlp-271828'', ytdlpErr = None, ytdlpOutput = [],
      globFiles = [''/tmp/whisper-lrc-ytdlp-271828/audio.mp3''], globErr = None,
      transcribe = (\<lambda>audioPath language prompt.
        Inr \<lparr>FullText = [], Language = ''en'', Segments = rickSegments\<rparr>),
      mkdirAll = None, writeFile = None\<rparr>"

text \<open>\<open>Stop\<close> called \<open>k\<close> times in a row; \<open>None\<close> when one of the calls panics.\<close>

fun stops :: "nat \<Rightarrow> Tracker \<Rightarrow> Tracker option" where
  "stops 0 t = Some t"
| "stops (Suc k) t = (case Stop t of None \<Rightarrow> None | Some t' \<Rightarrow> stops k t')"

text \<open>
  The outcomes of a run are the persistent lines of the tracker, one for each
  notification \<open>Complete\<close> or \<open>Error\<close>: the input of an outcome, and the failures and
  the successes among a list of outcomes.
\<close>

fun lineInput :: "line \<Rightarrow> string" where
  "lineInput (Completed input output) = input"
| "lineInput (Errored input err) = input"

fun failuresOf :: "line list \<Rightarrow> (string \<times> error) list" where
  "failuresOf [] = []"
| "failuresOf (Errored input err # ls) = (input, err) # failuresOf ls"
| "failuresOf (Completed input output # ls) = failuresOf ls"

fun successesOf :: "line list \<Rightarrow> (string \<times> path) list" where
  "successesOf [] = []"
| "successesOf (Completed input output # ls) = (input, output) # successesOf ls"
| "successesOf (Errored input err # ls) = successesOf ls"

text \<open>The calls that one pass of the loop body makes for the input \<open>arg\<close>.\<close>

definition itemEvents :: "config \<Rightarrow> Handler \<Rightarrow> Formatter \<Rightarrow> string \<Rightarrow> world \<Rightarrow> event list" where
  "itemEvents cfg h formatter arg w =
     (case Resolve h w arg of
        ((audioPath, cleanup, Some err), evs1) \<Rightarrow> evs1
      | ((audioPath, cleanup, None), evs1) \<Rightarrow>
          evs1 @ snd (pipeline cfg formatter w arg audioPath cleanup))"

text \<open>
  What the specification says of one input (steps 2 to 8 of its batch orchestrator), in
  terms of the results of the calls: a failed resolution is a failure outcome with its
  error; a failed transcription is a failure outcome after the cleanup; then the
  document is rendered and the output path computed; a directory that cannot be
  created and a file that cannot be written are failure outcomes after the cleanup; a
  written file is a success outcome with the output path, after the cleanup. The result
  is the outcome and the calls made. It is compared with the loop below.
\<close>

definition spec_item :: "config \<Rightarrow> string \<Rightarrow> world \<Rightarrow> line \<times> event list" where
  "spec_item cfg arg w =
     (case Resolve (NewHandler (ytDlpFlag cfg)) w arg of
        ((audioPath, cleanup, Some err), evs1) \<Rightarrow> (Errored arg err, evs1)
      | ((audioPath, cleanup, None), evs1) \<Rightarrow>
          (case transcribe w audioPath (language cfg)
                  (if prompt cfg = [] then DefaultPrompt else prompt cfg) of
             Inl e \<Rightarrow> (Errored arg (TranscriptionFailed e), evs1 @ callIfNotNil cleanup)
           | Inr result \<Rightarrow>
               (case mkdirAll w of
                  Some e \<Rightarrow> (Errored arg (MkdirFailed e), evs1 @ callIfNotNil cleanup)
                | None \<Rightarrow>
                    (case writeFile w of
                       Some e \<Rightarrow>
                         (Errored arg (WriteFailed e),
                          evs1 @
                          [MkdirAll (Dir (getOutputPath arg (outputDir cfg) (outputFormat cfg)))] @
                          callIfNotNil cleanup)
                     | None \<Rightarrow>
                         (Completed arg (getOutputPath arg (outputDir cfg) (outputFormat cfg)),
                          evs1 @
                          [MkdirAll (Dir (getOutputPath arg (outputDir cfg) (outputFormat cfg))),
                           WriteFile (getOutputPath arg (outputDir cfg) (outputFormat cfg))
                             (Format (if outputFormat cfg = ''lrc'' then LRCFormatter
                                      else SRTFormatter) result)] @
                          callIfNotNil cleanup)))))"

text \<open>A sample configuration and a sample batch of three inputs.\<close>

definition plainConfig :: config where
  "plainConfig =
     \<lparr>apiKey = ''sk-test'', envKey = [], outputFormat = ''LRC'', outputDir = [],
      language = [], prompt = [], ytDlpFlag = False\<rparr>"

definition sampleBatch :: "(string \<times> world) list" where
  "sampleBatch =
     [(''music/one.mp3'', calm),
      (''notes.txt'', calm),
      (''https://cdn.example.com/a/song.flac?token=x'',
       calm\<lparr>http := [Redirect, Answer flacResponse], writeFile := Some ''disk full''\<rparr>)]"

text \<open>
  Where \<open>filepath.Join\<close> puts a plain file name: in the cleaned directory. At the
  current directory the result is the name itself.
\<close>

definition place :: "path \<Rightarrow> string \<Rightarrow> path" where
  "place dir file =
     (if dir = ''.'' then file else if dir = ''/'' then ''/'' @ file else dir @ ''/'' @ file)"

section \<open>The local resolver\<close>

lemma supported_iff:
  "supported e \<longleftrightarrow>
     e = ''.mp3'' \<or> e = ''.wav'' \<or> e = ''.m4a'' \<or> e = ''.flac'' \<or> e = ''.ogg'' \<or>
     e = ''.webm'' \<or> e = ''.mp4''"
  unfolding supported_def supportedExtensions_def by auto

text \<open>
  Claim C3. A path that does not exist is refused with NotFound, one that cannot be
  inspected with AccessError, a directory with InvalidInput, and a file whose
  lower-cased extension is none of .mp3, .wav, .m4a, .flac, .ogg, .webm, .mp4 with
  UnsupportedFormat; an existing file that is no directory and has one of these
  extensions, in any letter case, is returned unchanged with no cleanup and no error.
\<close>

theorem resolveLocalFile_cases:
  "(st = StatNotExist \<longrightarrow> resolveLocalFile st p = ([], None, Some (NotFound p))) \<and>
   (st = StatError e \<longrightarrow> resolveLocalFile st p = ([], None, Some (AccessError e))) \<and>
   (st = StatInfo True \<longrightarrow> resolveLocalFile st p = ([], None, Some (InvalidInput p))) \<and>
   (st = StatInfo False \<and>
      ToLower (Ext p) \<notin> {''.mp3'', ''.wav'', ''.m4a'', ''.flac'', ''.ogg'', ''.webm'', ''.mp4''} \<longrightarrow>
      resolveLocalFile st p = ([], None, Some (UnsupportedFormat (ToLower (Ext p))))) \<and>
   (st = StatInfo False \<and>
      ToLower (Ext p) \<in> {''.mp3'', ''.wav'', ''.m4a'', ''.flac'', ''.ogg'', ''.webm'', ''.mp4''} \<longrightarrow>
      resolveLocalFile st p = (p, None, None))"
  by (auto simp: resolveLocalFile_def supported_iff Let_def)

theorem resolveLocalFile_cases_witness:
  "resolveLocalFile StatNotExist ''a.mp3'' = ([], None, Some (NotFound ''a.mp3'')) \<and>
   resolveLocalFile (StatError ''permission denied'') ''a.mp3'' =
     ([], None, Some (AccessError ''permission denied'')) \<and>
   resolveLocalFile (StatInfo True) ''music.mp3'' = ([], None, Some (InvalidInput ''music.mp3'')) \<and>
   resolveLocalFile (StatInfo False) ''notes.TXT'' = ([], None, Some (UnsupportedFormat ''.txt'')) \<and>
   resolveLocalFile (StatInfo False) ''dir.d/Song.FLAC'' = (''dir.d/Song.FLAC'', None, None)"
proof -
  have e1: "ToLower (Ext ''notes.TXT'') = ''.txt''"
    by (simp add: ToLower_def Ext_def lowerByte_def)
  have e2: "ToLower (Ext ''dir.d/Song.FLAC'') = ''.flac''"
    by (simp add: ToLower_def Ext_def lowerByte_def)
  show ?thesis
    using resolveLocalFile_cases [of StatNotExist "''a.mp3''" "''x''"]
      resolveLocalFile_cases [of "StatError ''permission denied''" "''a.mp3''" "''permission denied''"]
      resolveLocalFile_cases [of "StatInfo True" "''music.mp3''" "''x''"]
      resolveLocalFile_cases [of "StatInfo False" "''notes.TXT''" "''x''"]
      resolveLocalFile_cases [of "StatInfo False" "''dir.d/Song.FLAC''" "''x''"]
    unfolding e1 e2 by simp
qed


section \<open>The direct downloader\<close>

lemma clientGet_follow:
  "reqs + n < 10 \<Longrightarrow> clientGet reqs (replicate n Redirect @ xs) = clientGet (reqs + n) xs"
  by (induction n arbitrary: reqs) (auto simp: CheckRedirect_def)

lemma clientGet_refuse:
  "0 < n \<Longrightarrow> 10 \<le> reqs + n \<Longrightarrow>
   clientGet reqs (replicate n Redirect @ xs) = Inl TooManyRedirects"
proof (induction n arbitrary: reqs)
  case 0
  then show ?case by simp
next
  case (Suc n)
  show ?case
  proof (cases "CheckRedirect (Suc reqs)")
    case True
    then show ?thesis by simp
  next
    case False
    then have "Suc reqs < 10" by (simp add: CheckRedirect_def)
    with Suc.prems have "0 < n" "10 \<le> Suc reqs + n" by auto
    from Suc.IH [OF this] False show ?thesis by simp
  qed
qed



text \<open>
  Claim C4, as the code has it. The client asks the redirect policy before it follows a
  redirect, with the requests made so far; the policy refuses when there are ten. So a
  chain of ten or more redirects fails with TooManyRedirects, and a chain of at most nine
  redirects reaches the final response. A final response that is not a 200 fails with
  DownloadFailed and its status code; a 200 whose content type starts with text/html
  fails with UnexpectedContent; in all three failures no temporary file has been
  created. A 200 that is not HTML succeeds when the temporary file can be created and
  written: the result is the new file with the closure that removes it.
\<close>

theorem downloadDirect_redirects:
  assumes "http w = replicate n Redirect @ Answer resp # rest"
  shows "(10 \<le> n \<longrightarrow>
            downloadDirect w url = (([], None, Some (GetFailed TooManyRedirects)), [])) \<and>
         (n \<le> 9 \<and> StatusCode resp \<noteq> 200 \<longrightarrow>
            downloadDirect w url = (([], None, Some (DownloadFailed (StatusCode resp))), [])) \<and>
         (n \<le> 9 \<and> StatusCode resp = 200 \<and> HasPrefix (ContentType resp) ''text/html'' \<longrightarrow>
            downloadDirect w url = (([], None, Some UnexpectedContent), [])) \<and>
         (n \<le> 9 \<and> StatusCode resp = 200 \<and> \<not> HasPrefix (ContentType resp) ''text/html'' \<and>
          createTemp w = Inr rnd \<and> copyErr w = None \<longrightarrow>
            downloadDirect w url =
              ((tempFileName (TempDir w) rnd (getAudioExtension (extOrder w) resp),
                Some (RemoveFile (tempFileName (TempDir w) rnd (getAudioExtension (extOrder w) resp))),
                None),
               [CreateTemp (tempFileName (TempDir w) rnd (getAudioExtension (extOrder w) resp))]))"
proof -
  have many: "10 \<le> n \<Longrightarrow> clientGet 0 (http w) = Inl TooManyRedirects"
    using clientGet_refuse [of n 0] assms by simp
  have few: "n \<le> 9 \<Longrightarrow> clientGet 0 (http w) = Inr resp"
    using clientGet_follow [of 0 n] assms by simp
  show ?thesis
    using many few by (auto simp: downloadDirect_def Let_def)
qed

lemma mpeg_extension: "getAudioExtension supportedExtensions mpegResponse = ''.mp3''"
  by code_simp

theorem downloadDirect_redirects_witness:
  "downloadDirect (calm\<lparr>http := replicate 9 Redirect @ [Answer mpegResponse]\<rparr>)
     ''https://example.com/download?id=7'' =
     ((''/tmp/whisper-lrc-314159.mp3'', Some (RemoveFile ''/tmp/whisper-lrc-314159.mp3''), None),
      [CreateTemp ''/tmp/whisper-lrc-314159.mp3'']) \<and>
   downloadDirect (calm\<lparr>http := replicate 11 Redirect @ [Answer mpegResponse]\<rparr>)
     ''https://example.com/download?id=7'' =
     (([], None, Some (GetFailed TooManyRedirects)), []) \<and>
   downloadDirect (calm\<lparr>http := replicate 2 Redirect @ [Answer missingResponse]\<rparr>)
     ''https://example.com/gone.mp3'' =
     (([], None, Some (DownloadFailed 404)), []) \<and>
   downloadDirect (calm\<lparr>http := replicate 0 Redirect @ [Answer htmlResponse]\<rparr>)
     ''https://example.com/sorry'' =
     (([], None, Some UnexpectedContent), [])"
proof -
  have html: "HasPrefix (ContentType htmlResponse) ''text/html''"
    by (simp add: htmlResponse_def HasPrefix_def)
  have mpeg: "\<not> HasPrefix (ContentType mpegResponse) ''text/html''"
    by (simp add: mpegResponse_def HasPrefix_def)
  have a: "downloadDirect (calm\<lparr>http := replicate 9 Redirect @ [Answer mpegResponse]\<rparr>)
      ''https://example.com/download?id=7'' =
     ((''/tmp/whisper-lrc-314159.mp3'', Some (RemoveFile ''/tmp/whisper-lrc-314159.mp3''), None),
      [CreateTemp ''/tmp/whisper-lrc-314159.mp3''])"
    using downloadDirect_redirects
      [of "calm\<lparr>http := replicate 9 Redirect @ [Answer mpegResponse]\<rparr>" 9 mpegResponse "[]"
        "''https://example.com/download?id=7''" "''314159''"] mpeg
    by (simp add: calm_def mpeg_extension tempFileName_def) (simp add: mpegResponse_def)
  have b: "downloadDirect (calm\<lparr>http := replicate 11 Redirect @ [Answer mpegResponse]\<rparr>)
      ''https://example.com/download?id=7'' = (([], None, Some (GetFailed TooManyRedirects)), [])"
    using downloadDirect_redirects
      [of "calm\<lparr>http := replicate 11 Redirect @ [Answer mpegResponse]\<rparr>" 11 mpegResponse "[]"]
    by simp
  have c: "downloadDirect (calm\<lparr>http := replicate 2 Redirect @ [Answer missingResponse]\<rparr>)
      ''https://example.com/gone.mp3'' = (([], None, Some (DownloadFailed 404)), [])"
    using downloadDirect_redirects
      [of "calm\<lparr>http := replicate 2 Redirect @ [Answer missingResponse]\<rparr>" 2 missingResponse "[]"]
    by (simp add: missingResponse_def)
  have d: "downloadDirect (calm\<lparr>http := replicate 0 Redirect @ [Answer htmlResponse]\<rparr>)
      ''https://example.com/sorry'' = (([], None, Some UnexpectedContent), [])"
    using downloadDirect_redirects
      [of "calm\<lparr>http := replicate 0 Redirect @ [Answer htmlResponse]\<rparr>" 0 htmlResponse "[]"] html
    by (simp add: htmlResponse_def)
  from a b c d show ?thesis by blast
qed

text \<open>
  The claim as it was stated fails on a chain of exactly ten redirects that ends in a
  valid 200 with an audio content type: the tenth redirect is refused.
\<close>

theorem downloadDirect_ten_redirects_counterexample:
  "downloadDirect (calm\<lparr>http := replicate 10 Redirect @ [Answer mpegResponse]\<rparr>)
     ''https://example.com/download?id=7'' =
   (([], None, Some (GetFailed TooManyRedirects)), [])"
  by code_simp



section \<open>The extension of the temporary file\<close>

lemma urlExtension_Some:
  "urlExtension order p u = Some e \<Longrightarrow> e \<in> set order \<and> urlMatches p u e"
  by (induction order) (auto split: if_splits)

lemma urlExtension_None:
  "urlExtension order p u = None \<longleftrightarrow> (\<forall>e\<in>set order. \<not> urlMatches p u e)"
  by (induction order) auto

lemma extScan_dot:
  "CHR ''/'' \<notin> set xs \<Longrightarrow> CHR ''.'' \<notin> set xs \<Longrightarrow>
   extScan (xs @ CHR ''.'' # ys) acc = CHR ''.'' # rev xs @ acc"
  by (induction xs arbitrary: acc) auto

lemma Ext_append:
  assumes "CHR ''/'' \<notin> set xs" "CHR ''.'' \<notin> set xs"
  shows "Ext (pre @ CHR ''.'' # xs) = CHR ''.'' # xs"
  using extScan_dot [of "rev xs" "rev pre" "[]"] assms by (simp add: Ext_def)

lemma Ext_tempFileName:
  "supported ext \<Longrightarrow> Ext (tempFileName dir rnd ext) = ext"
  unfolding supported_iff tempFileName_def
  using Ext_append
    [of "tl ext" "(if dir \<noteq> [] \<and> last dir = CHR ''/'' then dir else dir @ ''/'') @
      ''whisper-lrc-'' @ rnd"]
  by auto

lemma contentTypeMap_supported:
  "map_of contentTypeMap ct = Some ext \<Longrightarrow> ext \<noteq> [] \<Longrightarrow> supported ext"
  by (auto simp: contentTypeMap_def supported_iff split: if_splits)

lemma getAudioExtension_supported:
  "set order = set supportedExtensions \<Longrightarrow> supported (getAudioExtension order resp)"
  by (auto simp: getAudioExtension_def Let_def supported_def[symmetric] supported_iff
      dest!: urlExtension_Some contentTypeMap_supported split: option.splits)

lemma downloadDirect_path:
  assumes "clientGet 0 (http w) = Inr resp"
    and "downloadDirect w url = ((p, c, None), evs)"
  shows "\<exists>rnd. p = tempFileName (TempDir w) rnd (getAudioExtension (extOrder w) resp)"
  using assms
  by (auto simp: downloadDirect_def Let_def split: if_splits sum.splits option.splits)

text \<open>
  The table misses for the generic octet-stream and for an absent content type, and
  also for every other content type that is not one of its keys.
\<close>

lemma lookupMisses_octet_stream:
  "stripParams (ContentType resp) = ''application/octet-stream'' \<Longrightarrow> lookupMisses resp"
  by (simp add: lookupMisses_def contentTypeMap_def)

lemma lookupMisses_absent:
  "ContentType resp = [] \<Longrightarrow> lookupMisses resp"
  by (simp add: lookupMisses_def contentTypeMap_def stripParams_def)

text \<open>
  Claim C5, as the code has it. In whatever order the runtime visits the supported
  extensions: (1) a content type (its parameters stripped) that the table maps to an
  extension gives that extension; (2) whenever the table gives none (for
  application/octet-stream, for an absent content type, and for any content type that
  is not in the table), and some supported extension ends the lower-cased path of the
  final URL or stands before a question mark or an ampersand in the lower-cased final
  URL, the result is such an extension; (3) whenever the table gives none and no
  supported extension is found in the URL, the result is .mp3. The temporary file of a
  successful download has the extension so determined.
\<close>

theorem getAudioExtension_order:
  assumes "set order = set supportedExtensions"
  shows "(map_of contentTypeMap (stripParams (ContentType resp)) = Some ext \<and> ext \<noteq> [] \<longrightarrow>
            getAudioExtension order resp = ext) \<and>
         (lookupMisses resp \<and>
          (\<exists>e\<in>set supportedExtensions. urlMatches (URLPath resp) (URLString resp) e) \<longrightarrow>
            supported (getAudioExtension order resp) \<and>
            urlMatches (URLPath resp) (URLString resp) (getAudioExtension order resp)) \<and>
         (lookupMisses resp \<and>
          (\<forall>e\<in>set supportedExtensions. \<not> urlMatches (URLPath resp) (URLString resp) e) \<longrightarrow>
            getAudioExtension order resp = ''.mp3'') \<and>
         (extOrder w = order \<and> clientGet 0 (http w) = Inr resp \<and>
          downloadDirect w url = ((p, c, None), evs) \<longrightarrow>
            Ext p = getAudioExtension order resp)"
proof -
  let ?p = "URLPath resp" and ?u = "URLString resp"
  have one: "getAudioExtension order resp = ext"
    if "map_of contentTypeMap (stripParams (ContentType resp)) = Some ext \<and> ext \<noteq> []"
    using that by (simp add: getAudioExtension_def Let_def)
  have two: "supported (getAudioExtension order resp) \<and>
      urlMatches ?p ?u (getAudioExtension order resp)"
    if a: "lookupMisses resp \<and> (\<exists>e\<in>set supportedExtensions. urlMatches ?p ?u e)"
  proof -
    from a obtain e where e: "urlExtension order ?p ?u = Some e"
      using urlExtension_None [of order ?p ?u] assms by auto
    with a have "getAudioExtension order resp = e"
      by (auto simp: getAudioExtension_def lookupMisses_def Let_def)
    with urlExtension_Some [OF e] assms show ?thesis
      by (simp add: supported_def)
  qed
  have three: "getAudioExtension order resp = ''.mp3''"
    if a: "lookupMisses resp \<and> (\<forall>e\<in>set supportedExtensions. \<not> urlMatches ?p ?u e)"
  proof -
    from a have "urlExtension order ?p ?u = None"
      using urlExtension_None [of order ?p ?u] assms by auto
    with a show ?thesis
      by (auto simp: getAudioExtension_def lookupMisses_def Let_def)
  qed
  have four: "Ext p = getAudioExtension order resp"
    if a: "extOrder w = order \<and> clientGet 0 (http w) = Inr resp \<and>
      downloadDirect w url = ((p, c, None), evs)"
  proof -
    from a obtain rnd where "p = tempFileName (TempDir w) rnd (getAudioExtension order resp)"
      using downloadDirect_path [of w resp url p c evs] by auto
    then show ?thesis
      using Ext_tempFileName [OF getAudioExtension_supported [OF assms]] by simp
  qed
  from one two three four show ?thesis by blast
qed

text \<open>
  The two examples of the claim, in any order of the runtime: the content type
  audio/mpeg gives .mp3, and application/octet-stream with a final URL that ends in
  .flac?token=x gives .flac.
\<close>

lemma flac_only:
  "supported e \<Longrightarrow> urlMatches (URLPath flacResponse) (URLString flacResponse) e \<Longrightarrow> e = ''.flac''"
proof -
  have no: "\<not> urlMatches (URLPath flacResponse) (URLString flacResponse) ''.mp3''"
    "\<not> urlMatches (URLPath flacResponse) (URLString flacResponse) ''.wav''"
    "\<not> urlMatches (URLPath flacResponse) (URLString flacResponse) ''.m4a''"
    "\<not> urlMatches (URLPath flacResponse) (URLString flacResponse) ''.ogg''"
    "\<not> urlMatches (URLPath flacResponse) (URLString flacResponse) ''.webm''"
    "\<not> urlMatches (URLPath flacResponse) (URLString flacResponse) ''.mp4''"
    by code_simp+
  assume "supported e" "urlMatches (URLPath flacResponse) (URLString flacResponse) e"
  with no show ?thesis unfolding supported_iff by blast
qed

lemma flac_found: "urlMatches (URLPath flacResponse) (URLString flacResponse) ''.flac''"
  by code_simp

theorem getAudioExtension_order_witness:
  "set (rev supportedExtensions) = set supportedExtensions \<and>
   getAudioExtension (rev supportedExtensions) mpegResponse = ''.mp3'' \<and>
   lookupMisses flacResponse \<and>
   getAudioExtension (rev supportedExtensions) flacResponse = ''.flac''"
proof -
  have perm: "set (rev supportedExtensions) = set supportedExtensions" by simp
  have hit: "map_of contentTypeMap (stripParams (ContentType mpegResponse)) = Some ''.mp3''"
    by code_simp
  have miss: "lookupMisses flacResponse"
    by code_simp
  have found: "\<exists>e\<in>set supportedExtensions.
      urlMatches (URLPath flacResponse) (URLString flacResponse) e"
    using flac_found by (auto simp: supportedExtensions_def)
  from getAudioExtension_order [OF perm, of mpegResponse "''.mp3''"] hit
  have a: "getAudioExtension (rev supportedExtensions) mpegResponse = ''.mp3''" by simp
  from getAudioExtension_order [OF perm, of flacResponse] miss found
  have "supported (getAudioExtension (rev supportedExtensions) flacResponse) \<and>
    urlMatches (URLPath flacResponse) (URLString flacResponse)
      (getAudioExtension (rev supportedExtensions) flacResponse)"
    by blast
  then have b: "getAudioExtension (rev supportedExtensions) flacResponse = ''.flac''"
    using flac_only by blast
  from perm a miss b show ?thesis by blast
qed

text \<open>
  The order as the claim states it restricts the look at the URL to the octet-stream
  and the absent content type. The code looks at the URL for every content type that the
  table does not resolve: for text/plain and a final URL that ends in .flac it names the
  file .flac, where the stated order gives the default .mp3.
\<close>

theorem getAudioExtension_counterexample:
  "getAudioExtension supportedExtensions plainResponse = ''.flac'' \<and>
   spec_getAudioExtension supportedExtensions plainResponse = ''.mp3''"
  by code_simp

section \<open>The video extractor\<close>

text \<open>
  Claim C6. For a URL that goes to the video extractor (the mode is enabled and the URL
  matches a hosting pattern): without the tool on the search path, resolution fails
  with ToolNotFound and nothing has been created; when the tool fails, the error is
  ExtractionFailed with the tool's error and its combined output, and the temporary
  directory has been removed; when the tool succeeds and the glob finds no file, the
  error is ExtractionFailed and the directory has been removed; when the glob finds
  files, the first one is returned with the closure that removes the directory, and
  the directory is still there.
\<close>

theorem downloadWithYtDlp_cases:
  assumes "useYtDlp h" and "isURL url" and "isYouTubeURL url"
  shows "(\<not> lookPath w \<longrightarrow> Resolve h w url = (([], None, Some ToolNotFound), [])) \<and>
         (lookPath w \<and> mkdirTemp w = Inr d \<and> ytdlpErr w = Some e \<longrightarrow>
            Resolve h w url =
              (([], None, Some (ExtractionFailed (ToolExit e (ytdlpOutput w)))),
               [MkdirTemp d, Exec (ytdlpArgs d url), RemoveAll d])) \<and>
         (lookPath w \<and> mkdirTemp w = Inr d \<and> ytdlpErr w = None \<and> globErr w = None \<and>
          globFiles w = [] \<longrightarrow>
            Resolve h w url =
              (([], None, Some (ExtractionFailed NoAudioFound)),
               [MkdirTemp d, Exec (ytdlpArgs d url), RemoveAll d])) \<and>
         (lookPath w \<and> mkdirTemp w = Inr d \<and> ytdlpErr w = None \<and> globErr w = None \<and>
          globFiles w = f # fs \<longrightarrow>
            Resolve h w url =
              ((f, Some (RemoveDir d), None), [MkdirTemp d, Exec (ytdlpArgs d url)]))"
  using assms by (simp add: Resolve_def resolveURL_def downloadWithYtDlp_def Let_def)

lemma watch_url:
  "isURL ''https://www.youtube.com/watch?v=dQw4w9WgXcQ'' \<and>
   isYouTubeURL ''https://www.youtube.com/watch?v=dQw4w9WgXcQ''"
  by code_simp

theorem downloadWithYtDlp_cases_witness:
  "Resolve (NewHandler True) (calm\<lparr>lookPath := False\<rparr>)
     ''https://www.youtube.com/watch?v=dQw4w9WgXcQ'' = (([], None, Some ToolNotFound), []) \<and>
   Resolve (NewHandler True)
     (calm\<lparr>ytdlpErr := Some ''exit status 1'', ytdlpOutput := ''ERROR: Video unavailable''\<rparr>)
     ''https://www.youtube.com/watch?v=dQw4w9WgXcQ'' =
     (([], None, Some (ExtractionFailed (ToolExit ''exit status 1'' ''ERROR: Video unavailable''))),
      [MkdirTemp ''/tmp/whisper-lrc-ytdlp-271828'',
       Exec (ytdlpArgs ''/tmp/whisper-lrc-ytdlp-271828''
         ''https://www.youtube.com/watch?v=dQw4w9WgXcQ''),
       RemoveAll ''/tmp/whisper-lrc-ytdlp-271828'']) \<and>
   Resolve (NewHandler True) (calm\<lparr>globFiles := []\<rparr>)
     ''https://www.youtube.com/watch?v=dQw4w9WgXcQ'' =
     (([], None, Some (ExtractionFailed NoAudioFound)),
      [MkdirTemp ''/tmp/whisper-lrc-ytdlp-271828'',
       Exec (ytdlpArgs ''/tmp/whisper-lrc-ytdlp-271828''
         ''https://www.youtube.com/watch?v=dQw4w9WgXcQ''),
       RemoveAll ''/tmp/whisper-lrc-ytdlp-271828'']) \<and>
   Resolve (NewHandler True) calm ''https://www.youtube.com/watch?v=dQw4w9WgXcQ'' =
     ((''/tmp/whisper-lrc-ytdlp-271828/audio.mp3'',
       Some (RemoveDir ''/tmp/whisper-lrc-ytdlp-271828''), None),
      [MkdirTemp ''/tmp/whisper-lrc-ytdlp-271828'',
       Exec (ytdlpArgs ''/tmp/whisper-lrc-ytdlp-271828''
         ''https://www.youtube.com/watch?v=dQw4w9WgXcQ'')])"
proof -
  let ?u = "''https://www.youtube.com/watch?v=dQw4w9WgXcQ''"
  let ?d = "''/tmp/whisper-lrc-ytdlp-271828''"
  have h: "useYtDlp (NewHandler True)" by (simp add: NewHandler_def)
  note th = downloadWithYtDlp_cases [OF h conjunct1 [OF watch_url] conjunct2 [OF watch_url]]
  have a: "Resolve (NewHandler True) (calm\<lparr>lookPath := False\<rparr>) ?u =
      (([], None, Some ToolNotFound), [])"
    using th [of "calm\<lparr>lookPath := False\<rparr>"] by simp
  have b: "Resolve (NewHandler True)
      (calm\<lparr>ytdlpErr := Some ''exit status 1'', ytdlpOutput := ''ERROR: Video unavailable''\<rparr>) ?u =
      (([], None, Some (ExtractionFailed (ToolExit ''exit status 1'' ''ERROR: Video unavailable''))),
       [MkdirTemp ?d, Exec (ytdlpArgs ?d ?u), RemoveAll ?d])"
    using th [of "calm\<lparr>ytdlpErr := Some ''exit status 1'',
      ytdlpOutput := ''ERROR: Video unavailable''\<rparr>" ?d "''exit status 1''"]
    by (simp add: calm_def)
  have c: "Resolve (NewHandler True) (calm\<lparr>globFiles := []\<rparr>) ?u =
      (([], None, Some (ExtractionFailed NoAudioFound)),
       [MkdirTemp ?d, Exec (ytdlpArgs ?d ?u), RemoveAll ?d])"
    using th [of "calm\<lparr>globFiles := []\<rparr>" ?d] by (simp add: calm_def)
  have d: "Resolve (NewHandler True) calm ?u =
      ((''/tmp/whisper-lrc-ytdlp-271828/audio.mp3'', Some (RemoveDir ?d), None),
       [MkdirTemp ?d, Exec (ytdlpArgs ?d ?u)])"
    using th [of calm ?d _ "''/tmp/whisper-lrc-ytdlp-271828/audio.mp3''" "[]"]
    by (simp add: calm_def)
  from a b c d show ?thesis by blast
qed

section \<open>Errors of the resolution facade\<close>

text \<open>
  Claim C9. Whenever \<open>Resolve\<close> returns an error, the path it returns is empty and the
  cleanup closure is nil, and every temporary file or directory that the failed
  resolution created has been removed by the calls it made before it returned.
\<close>

theorem Resolve_error_clean:
  assumes "Resolve h w input = ((p, c, Some e), evs)"
  shows "p = [] \<and> c = None \<and> leftBehind evs [] = []"
  using assms
  by (auto simp: Resolve_def resolveURL_def resolveLocalFile_def downloadDirect_def
      downloadWithYtDlp_def Let_def
      split: if_splits sum.splits option.splits stat_result.splits)

theorem Resolve_error_clean_witness:
  "Resolve (NewHandler False)
     (calm\<lparr>http := [Redirect, Answer mpegResponse], copyErr := Some ''no space left on device''\<rparr>)
     ''https://example.com/download?id=7'' =
     (([], None, Some (SaveFailed ''no space left on device'')),
      [CreateTemp ''/tmp/whisper-lrc-314159.mp3'', Remove ''/tmp/whisper-lrc-314159.mp3'']) \<and>
   leftBehind [CreateTemp ''/tmp/whisper-lrc-314159.mp3'', Remove ''/tmp/whisper-lrc-314159.mp3'']
     [] = []"
proof -
  have r: "Resolve (NewHandler False)
     (calm\<lparr>http := [Redirect, Answer mpegResponse], copyErr := Some ''no space left on device''\<rparr>)
     ''https://example.com/download?id=7'' =
     (([], None, Some (SaveFailed ''no space left on device'')),
      [CreateTemp ''/tmp/whisper-lrc-314159.mp3'', Remove ''/tmp/whisper-lrc-314159.mp3''])"
    by code_simp
  from Resolve_error_clean [OF r] r show ?thesis by simp
qed



section \<open>The progress tracker\<close>

lemma Stop_stopped: "\<not> started t \<Longrightarrow> Stop t = Some t"
  by (simp add: Stop_def)

lemma stops_stopped: "\<not> started t \<Longrightarrow> stops k t = Some t"
  by (induction k) (simp_all add: Stop_stopped)

lemma Stop_started:
  "started t \<Longrightarrow> doneChan t = Open \<Longrightarrow> Stop t = Some (t\<lparr>doneChan := Closed, started := False\<rparr>)"
  by (simp add: Stop_def)

lemma iteration_tracker:
  assumes "iteration cfg h f i arg w (errs, t, evs) = (errs', t', evs')"
  shows "started t' = started t \<and> doneChan t' = doneChan t \<and>
         (\<exists>l. printed t' = printed t @ [l] \<and> lineInput l = arg \<and>
              errs' = errs @ failuresOf [l] \<and>
              errors t' = errors t @ failuresOf [l] \<and>
              completed t' = completed t @ successesOf [l])"
  using assms
  by (auto simp: iteration_def Let_def Error_def Complete_def SetStatus_def SetCurrent_def
      split: prod.splits option.splits sum.splits)

lemma failuresOf_append: "failuresOf (xs @ ys) = failuresOf xs @ failuresOf ys"
  by (induction xs rule: failuresOf.induct) auto

lemma successesOf_append: "successesOf (xs @ ys) = successesOf xs @ successesOf ys"
  by (induction xs rule: successesOf.induct) auto

lemma length_outcomes: "length (failuresOf ls) + length (successesOf ls) = length ls"
  by (induction ls rule: failuresOf.induct) auto

lemma loop_tracker:
  assumes "loop cfg h f i items (errs, t, evs) = (errs', t', evs')"
  shows "started t' = started t \<and> doneChan t' = doneChan t \<and>
         (\<exists>ls. printed t' = printed t @ ls \<and> map lineInput ls = map fst items \<and>
               errs' = errs @ failuresOf ls \<and>
               errors t' = errors t @ failuresOf ls \<and>
               completed t' = completed t @ successesOf ls)"
  using assms
proof (induction items arbitrary: i errs t evs)
  case Nil
  then show ?case by simp
next
  case (Cons item items)
  obtain arg w where item: "item = (arg, w)" by (cases item)
  obtain errs1 t1 evs1 where it: "iteration cfg h f i arg w (errs, t, evs) = (errs1, t1, evs1)"
    by (cases "iteration cfg h f i arg w (errs, t, evs)") auto
  from iteration_tracker [OF it] obtain l where l:
    "started t1 = started t" "doneChan t1 = doneChan t"
    "printed t1 = printed t @ [l]" "lineInput l = arg"
    "errs1 = errs @ failuresOf [l]" "errors t1 = errors t @ failuresOf [l]"
    "completed t1 = completed t @ successesOf [l]"
    by blast
  from Cons.prems item it
  have "loop cfg h f (Suc i) items (errs1, t1, evs1) = (errs', t', evs')" by simp
  from Cons.IH [OF this] obtain ls where ls:
    "started t' = started t1" "doneChan t' = doneChan t1"
    "printed t' = printed t1 @ ls" "map lineInput ls = map fst items"
    "errs' = errs1 @ failuresOf ls" "errors t' = errors t1 @ failuresOf ls"
    "completed t' = completed t1 @ successesOf ls"
    by blast
  have "printed t' = printed t @ (l # ls) \<and> map lineInput (l # ls) = map fst (item # items) \<and>
      errs' = errs @ failuresOf (l # ls) \<and> errors t' = errors t @ failuresOf (l # ls) \<and>
      completed t' = completed t @ successesOf (l # ls)"
    using l ls item
    failuresOf_append [of "[l]" ls] successesOf_append [of "[l]" ls] by simp
  with l ls show ?case by metis
qed

text \<open>The batch returns, and the tracker it returns is stopped.\<close>

lemma runBatch_returns:
  "\<exists>h f errs t evs.
     loop cfg h f 0 items ([], Start (NewTracker (int (length items))), []) = (errs, t, evs) \<and>
     runBatch cfg items =
       Returned (if errs \<noteq> [] then Some SomeFailed else None) errs
         (t\<lparr>doneChan := Closed, started := False\<rparr>) evs"
proof -
  let ?h = "NewHandler (ytDlpFlag cfg)"
  let ?f = "if outputFormat cfg = ''lrc'' then LRCFormatter else SRTFormatter"
  let ?t0 = "Start (NewTracker (int (length items)))"
  obtain errs t evs where lp: "loop cfg ?h ?f 0 items ([], ?t0, []) = (errs, t, evs)"
    by (cases "loop cfg ?h ?f 0 items ([], ?t0, [])") auto
  from loop_tracker [OF lp] have st: "started t" "doneChan t = Open"
    by (simp_all add: Start_def NewTracker_def)
  let ?t1 = "t\<lparr>doneChan := Closed, started := False\<rparr>"
  have s1: "Stop t = Some ?t1" using st by (rule Stop_started)
  have s2: "Stop ?t1 = Some ?t1" by (simp add: Stop_stopped)
  have "runBatch cfg items =
      Returned (if errs \<noteq> [] then Some SomeFailed else None) errs ?t1 evs"
    using lp s1 s2 by (simp add: runBatch_def Let_def)
  with lp show ?thesis by blast
qed

lemma runExtract_valid:
  assumes "apiKey cfg \<noteq> [] \<or> envKey cfg \<noteq> []"
    and "ToLower (outputFormat cfg) = ''lrc'' \<or> ToLower (outputFormat cfg) = ''srt''"
  shows "runExtract cfg items = runBatch (cfg\<lparr>outputFormat := ToLower (outputFormat cfg)\<rparr>) items"
  using assms by (auto simp: runExtract_def Let_def)

text \<open>
  Claim C10. After one \<open>Start\<close>, the first \<open>Stop\<close> closes the channel and clears the
  flag \<open>started\<close>; every later \<open>Stop\<close> changes nothing and does not close the channel
  again (it does not panic), however often it is called. The run of the orchestrator,
  with its explicit \<open>Stop\<close> and its deferred \<open>Stop\<close>, does not panic.
\<close>

theorem Stop_idempotent:
  assumes "started t" and "doneChan t = Open"
  shows "Stop t = Some (t\<lparr>doneChan := Closed, started := False\<rparr>) \<and>
         stops (Suc k) t = Some (t\<lparr>doneChan := Closed, started := False\<rparr>) \<and>
         runExtract cfg items \<noteq> Panic"
proof -
  have one: "Stop t = Some (t\<lparr>doneChan := Closed, started := False\<rparr>)"
    using assms by (rule Stop_started)
  then have more: "stops (Suc k) t = Some (t\<lparr>doneChan := Closed, started := False\<rparr>)"
    by (simp add: stops_stopped)
  have run: "runExtract cfg items \<noteq> Panic"
  proof -
    have "runBatch c items \<noteq> Panic" for c
      using runBatch_returns [of c items] by auto
    then show ?thesis by (simp add: runExtract_def Let_def)
  qed
  from one more run show ?thesis by blast
qed

theorem Stop_idempotent_witness:
  "started (Start (NewTracker 3)) \<and> doneChan (Start (NewTracker 3)) = Open \<and>
   Stop (Start (NewTracker 3)) = Some (NewTracker 3\<lparr>doneChan := Closed\<rparr>) \<and>
   stops (Suc 4) (Start (NewTracker 3)) = Some (NewTracker 3\<lparr>doneChan := Closed\<rparr>) \<and>
   runExtract plainConfig sampleBatch \<noteq> Panic"
proof -
  have a: "started (Start (NewTracker 3))" and b: "doneChan (Start (NewTracker 3)) = Open"
    by (simp_all add: Start_def NewTracker_def)
  have c: "(Start (NewTracker 3))\<lparr>doneChan := Closed, started := False\<rparr> =
      NewTracker 3\<lparr>doneChan := Closed\<rparr>"
    by (simp add: Start_def NewTracker_def)
  from Stop_idempotent [OF a b, of 4 plainConfig sampleBatch]
  have "Stop (Start (NewTracker 3)) = Some (NewTracker 3\<lparr>doneChan := Closed\<rparr>) \<and>
    stops (Suc 4) (Start (NewTracker 3)) = Some (NewTracker 3\<lparr>doneChan := Closed\<rparr>) \<and>
    runExtract plainConfig sampleBatch \<noteq> Panic"
    unfolding c .
  with a b show ?thesis by blast
qed

section \<open>The batch\<close>

text \<open>
  One pass of the loop adds to the tracker the outcome, and to the calls the calls, that
  the specification gives for the input.
\<close>

lemma iteration_spec:
  assumes "h = NewHandler (ytDlpFlag cfg)"
    and "f = (if outputFormat cfg = ''lrc'' then LRCFormatter else SRTFormatter)"
    and "iteration cfg h f i arg w (errs, t, evs) = (errs', t', evs')"
  shows "printed t' = printed t @ [fst (spec_item cfg arg w)] \<and>
         evs' = evs @ snd (spec_item cfg arg w)"
proof (cases "prompt cfg = []")
  case True
  with assms show ?thesis
    by (auto simp: iteration_def pipeline_def spec_item_def Let_def Error_def Complete_def
        SetStatus_def SetCurrent_def
        split: prod.splits option.splits sum.splits)
next
  case False
  with assms show ?thesis
    by (auto simp: iteration_def pipeline_def spec_item_def Let_def Error_def Complete_def
        SetStatus_def SetCurrent_def
        split: prod.splits option.splits sum.splits)
qed

lemma loop_spec:
  assumes "h = NewHandler (ytDlpFlag cfg)"
    and "f = (if outputFormat cfg = ''lrc'' then LRCFormatter else SRTFormatter)"
    and "loop cfg h f i items (errs, t, evs) = (errs', t', evs')"
  shows "printed t' = printed t @ map (\<lambda>(arg, w). fst (spec_item cfg arg w)) items \<and>
         evs' = evs @ concat (map (\<lambda>(arg, w). snd (spec_item cfg arg w)) items)"
  using assms(3)
proof (induction items arbitrary: i errs t evs)
  case Nil
  then show ?case by simp
next
  case (Cons item items)
  obtain arg w where item: "item = (arg, w)" by (cases item)
  obtain errs1 t1 evs1 where it: "iteration cfg h f i arg w (errs, t, evs) = (errs1, t1, evs1)"
    by (cases "iteration cfg h f i arg w (errs, t, evs)") auto
  from iteration_spec [OF assms(1,2) it]
  have one: "printed t1 = printed t @ [fst (spec_item cfg arg w)]"
    "evs1 = evs @ snd (spec_item cfg arg w)"
    by simp_all
  from Cons.prems item it
  have "loop cfg h f (Suc i) items (errs1, t1, evs1) = (errs', t', evs')" by simp
  from Cons.IH [OF this] one item show ?case by simp
qed

text \<open>
  Claim C2. The batch returns and has produced one outcome for each input, in the order
  of the inputs, whatever failed on the way: the outcome of each input is the one the
  specification gives it (a failure outcome with the error of the stage that failed, a
  success outcome with the output path otherwise), and the calls of the batch are those
  of its inputs, one after the other, so a failure is recorded and the loop goes on
  with the next input. The list of failures holds the failed outcomes in their order,
  failures and successes together are as many as the inputs, the batch returns an error
  exactly when the list of failures is not empty, and so its exit status is not zero
  exactly then. A run with at least one input whose configuration is valid (a key is
  given and the format is lrc or srt) is such a batch, and the exit status of the
  process is that of the batch.
\<close>

theorem runExtract_batch:
  "(\<exists>err errs t evs.
      runBatch cfg items = Returned err errs t evs \<and>
      printed t = map (\<lambda>(arg, w). fst (spec_item cfg arg w)) items \<and>
      evs = concat (map (\<lambda>(arg, w). snd (spec_item cfg arg w)) items) \<and>
      map lineInput (printed t) = map fst items \<and>
      errs = failuresOf (printed t) \<and>
      errors t = errs \<and>
      completed t = successesOf (printed t) \<and>
      length errs + length (completed t) = length items \<and>
      (err \<noteq> None \<longleftrightarrow> errs \<noteq> []) \<and>
      (exitStatus (runBatch cfg items) \<noteq> 0 \<longleftrightarrow> errs \<noteq> [])) \<and>
   (items \<noteq> [] \<and> (apiKey c \<noteq> [] \<or> envKey c \<noteq> []) \<and>
    (ToLower (outputFormat c) = ''lrc'' \<or> ToLower (outputFormat c) = ''srt'') \<longrightarrow>
      runExtract c items = runBatch (c\<lparr>outputFormat := ToLower (outputFormat c)\<rparr>) items \<and>
      Execute c items = exitStatus (runBatch (c\<lparr>outputFormat := ToLower (outputFormat c)\<rparr>) items))"
proof -
  let ?h = "NewHandler (ytDlpFlag cfg)"
  let ?f = "if outputFormat cfg = ''lrc'' then LRCFormatter else SRTFormatter"
  let ?t0 = "Start (NewTracker (int (length items)))"
  obtain errs t evs where lp: "loop cfg ?h ?f 0 items ([], ?t0, []) = (errs, t, evs)"
    by (cases "loop cfg ?h ?f 0 items ([], ?t0, [])") auto
  from loop_tracker [OF lp] have st: "started t" "doneChan t = Open"
    by (simp_all add: Start_def NewTracker_def)
  let ?t1 = "t\<lparr>doneChan := Closed, started := False\<rparr>"
  have s1: "Stop t = Some ?t1" using st by (rule Stop_started)
  have s2: "Stop ?t1 = Some ?t1" by (simp add: Stop_stopped)
  have run: "runBatch cfg items =
      Returned (if errs \<noteq> [] then Some SomeFailed else None) errs ?t1 evs"
    using lp s1 s2 by (simp add: runBatch_def Let_def)
  from loop_spec [OF refl refl lp]
  have spec: "printed t = map (\<lambda>(arg, w). fst (spec_item cfg arg w)) items"
    "evs = concat (map (\<lambda>(arg, w). snd (spec_item cfg arg w)) items)"
    by (simp_all add: Start_def NewTracker_def)
  from loop_tracker [OF lp] obtain ls where ls:
    "printed t = ls" "map lineInput ls = map fst items" "errs = failuresOf ls"
    "errors t = failuresOf ls" "completed t = successesOf ls"
    by (auto simp: Start_def NewTracker_def)
  have len: "length errs + length (completed t) = length items"
    using ls length_outcomes [of ls] by (metis length_map)
  have exit: "exitStatus (runBatch cfg items) \<noteq> 0 \<longleftrightarrow> errs \<noteq> []"
    using run by simp
  have batch: "\<exists>err errs t evs.
      runBatch cfg items = Returned err errs t evs \<and>
      printed t = map (\<lambda>(arg, w). fst (spec_item cfg arg w)) items \<and>
      evs = concat (map (\<lambda>(arg, w). snd (spec_item cfg arg w)) items) \<and>
      map lineInput (printed t) = map fst items \<and>
      errs = failuresOf (printed t) \<and>
      errors t = errs \<and>
      completed t = successesOf (printed t) \<and>
      length errs + length (completed t) = length items \<and>
      (err \<noteq> None \<longleftrightarrow> errs \<noteq> []) \<and>
      (exitStatus (runBatch cfg items) \<noteq> 0 \<longleftrightarrow> errs \<noteq> [])"
  proof (intro exI conjI)
    show "runBatch cfg items =
      Returned (if errs \<noteq> [] then Some SomeFailed else None) errs ?t1 evs"
      by (rule run)
    show "printed ?t1 = map (\<lambda>(arg, w). fst (spec_item cfg arg w)) items"
      using spec(1) by simp
    show "evs = concat (map (\<lambda>(arg, w). snd (spec_item cfg arg w)) items)"
      by (rule spec(2))
    show "map lineInput (printed ?t1) = map fst items" using ls by simp
    show "errs = failuresOf (printed ?t1)" using ls by simp
    show "errors ?t1 = errs" using ls by simp
    show "completed ?t1 = successesOf (printed ?t1)" using ls by simp
    show "length errs + length (completed ?t1) = length items" using len by simp
    show "((if errs \<noteq> [] then Some SomeFailed else None) \<noteq> None) = (errs \<noteq> [])" by simp
    show "(exitStatus (runBatch cfg items) \<noteq> 0) = (errs \<noteq> [])" by (rule exit)
  qed
  have valid: "runExtract c items = runBatch (c\<lparr>outputFormat := ToLower (outputFormat c)\<rparr>) items \<and>
      Execute c items = exitStatus (runBatch (c\<lparr>outputFormat := ToLower (outputFormat c)\<rparr>) items)"
    if "items \<noteq> [] \<and> (apiKey c \<noteq> [] \<or> envKey c \<noteq> []) \<and>
      (ToLower (outputFormat c) = ''lrc'' \<or> ToLower (outputFormat c) = ''srt'')"
  proof -
    from that have "length items \<ge> 1" by (cases items) simp_all
    with that runExtract_valid [of c items] show ?thesis by (simp add: Execute_def)
  qed
  from batch valid show ?thesis by blast
qed

text \<open>
  With no input the process exits with 1 although no batch has run and nothing has
  failed; the same holds for a configuration that is refused.
\<close>

lemma Execute_no_input: "Execute cfg [] = 1"
  by (simp add: Execute_def)

lemma sample_run:
  "runExtract plainConfig sampleBatch =
     Returned (Some SomeFailed)
       [(''notes.txt'', UnsupportedFormat ''.txt''),
        (''https://cdn.example.com/a/song.flac?token=x'', WriteFailed ''disk full'')]
       \<lparr>total = 3, current = 3, fileName = ''song.flac?token=x'', status = ''Transcribing...'',
        errors = [(''notes.txt'', UnsupportedFormat ''.txt''),
          (''https://cdn.example.com/a/song.flac?token=x'', WriteFailed ''disk full'')],
        completed = [(''music/one.mp3'', ''music/one.lrc'')],
        doneChan = Closed, started = False,
        printed = [Completed ''music/one.mp3'' ''music/one.lrc'',
          Errored ''notes.txt'' (UnsupportedFormat ''.txt''),
          Errored ''https://cdn.example.com/a/song.flac?token=x'' (WriteFailed ''disk full'')]\<rparr>
       [MkdirAll ''music'',
        WriteFile ''music/one.lrc''
          (''[re:whisper-lrc]'' @ nl @ ''[la:en]'' @ nl @ nl @
           ''[00:00.50]Never gonna give you up'' @ nl @
           ''[00:03.20]Never gonna let you down'' @ nl),
        CreateTemp ''/tmp/whisper-lrc-314159.flac'',
        MkdirAll ''.'',
        Remove ''/tmp/whisper-lrc-314159.flac'']"
  by code_simp

theorem runExtract_batch_witness:
  "sampleBatch \<noteq> [] \<and>
   apiKey plainConfig = ''sk-test'' \<and>
   ToLower (outputFormat plainConfig) = ''lrc'' \<and>
   (\<exists>err errs t evs.
      runExtract plainConfig sampleBatch = Returned err errs t evs \<and>
      printed t =
        [Completed ''music/one.mp3'' ''music/one.lrc'',
         Errored ''notes.txt'' (UnsupportedFormat ''.txt''),
         Errored ''https://cdn.example.com/a/song.flac?token=x'' (WriteFailed ''disk full'')] \<and>
      errs =
        [(''notes.txt'', UnsupportedFormat ''.txt''),
         (''https://cdn.example.com/a/song.flac?token=x'', WriteFailed ''disk full'')] \<and>
      completed t = [(''music/one.mp3'', ''music/one.lrc'')]) \<and>
   Execute plainConfig sampleBatch = 1"
proof -
  have n: "sampleBatch \<noteq> []" by (simp add: sampleBatch_def)
  have k: "apiKey plainConfig = ''sk-test''"
    by (simp add: plainConfig_def)
  have f: "ToLower (outputFormat plainConfig) = ''lrc''"
    by code_simp
  from n k f have v: "sampleBatch \<noteq> [] \<and>
      (apiKey plainConfig \<noteq> [] \<or> envKey plainConfig \<noteq> []) \<and>
      (ToLower (outputFormat plainConfig) = ''lrc'' \<or> ToLower (outputFormat plainConfig) = ''srt'')"
    by simp
  let ?c = "plainConfig\<lparr>outputFormat := ToLower (outputFormat plainConfig)\<rparr>"
  have outcomes: "map (\<lambda>(arg, w). fst (spec_item ?c arg w)) sampleBatch =
      [Completed ''music/one.mp3'' ''music/one.lrc'',
       Errored ''notes.txt'' (UnsupportedFormat ''.txt''),
       Errored ''https://cdn.example.com/a/song.flac?token=x'' (WriteFailed ''disk full'')]"
    by code_simp
  from runExtract_batch [of ?c sampleBatch plainConfig] v
  obtain err errs t evs where b:
      "runBatch ?c sampleBatch = Returned err errs t evs"
      "printed t = map (\<lambda>(arg, w). fst (spec_item ?c arg w)) sampleBatch"
      "errs = failuresOf (printed t)"
      "completed t = successesOf (printed t)"
      "err \<noteq> None \<longleftrightarrow> errs \<noteq> []"
    and r: "runExtract plainConfig sampleBatch = runBatch ?c sampleBatch"
    and e: "Execute plainConfig sampleBatch = exitStatus (runBatch ?c sampleBatch)"
    by blast
  from b(2) outcomes have p: "printed t =
      [Completed ''music/one.mp3'' ''music/one.lrc'',
       Errored ''notes.txt'' (UnsupportedFormat ''.txt''),
       Errored ''https://cdn.example.com/a/song.flac?token=x'' (WriteFailed ''disk full'')]"
    by simp
  with b(3,4) have fs: "errs =
      [(''notes.txt'', UnsupportedFormat ''.txt''),
       (''https://cdn.example.com/a/song.flac?token=x'', WriteFailed ''disk full'')]"
    and cs: "completed t = [(''music/one.mp3'', ''music/one.lrc'')]"
    by simp_all
  from b(1,5) fs e have x: "Execute plainConfig sampleBatch = 1" by simp
  from n k f r b(1) p fs cs x show ?thesis by auto
qed

section \<open>Cleanup of temporary artifacts\<close>

lemma invoked_append: "invoked (xs @ ys) = invoked xs @ invoked ys"
  by (induction xs rule: invoked.induct) auto

lemma invoked_runCleanup: "invoked (runCleanup c) = [c]"
  by (cases c) simp_all

text \<open>Whatever stage fails or succeeds, the pipeline runs the closure once, if there is one.\<close>

lemma pipeline_invoked:
  "invoked (snd (pipeline cfg f w arg audioPath cleanup)) =
     (case cleanup of None \<Rightarrow> [] | Some c \<Rightarrow> [c])"
  by (cases cleanup)
    (simp_all add: pipeline_def Let_def invoked_runCleanup split: sum.splits option.splits)

text \<open>The four ways the pipeline ends, each with the calls it has made.\<close>

lemma pipeline_exits:
  "(transcribe w audioPath (language cfg)
      (if prompt cfg = [] then DefaultPrompt else prompt cfg) = Inl e \<longrightarrow>
      pipeline cfg f w arg audioPath cleanup =
        (Inl (TranscriptionFailed e), callIfNotNil cleanup)) \<and>
   (transcribe w audioPath (language cfg)
      (if prompt cfg = [] then DefaultPrompt else prompt cfg) = Inr result \<and>
    mkdirAll w = Some e \<longrightarrow>
      pipeline cfg f w arg audioPath cleanup = (Inl (MkdirFailed e), callIfNotNil cleanup)) \<and>
   (transcribe w audioPath (language cfg)
      (if prompt cfg = [] then DefaultPrompt else prompt cfg) = Inr result \<and>
    mkdirAll w = None \<and> writeFile w = Some e \<longrightarrow>
      pipeline cfg f w arg audioPath cleanup =
        (Inl (WriteFailed e),
         MkdirAll (Dir (getOutputPath arg (outputDir cfg) (outputFormat cfg))) #
         callIfNotNil cleanup)) \<and>
   (transcribe w audioPath (language cfg)
      (if prompt cfg = [] then DefaultPrompt else prompt cfg) = Inr result \<and>
    mkdirAll w = None \<and> writeFile w = None \<longrightarrow>
      pipeline cfg f w arg audioPath cleanup =
        (Inr (getOutputPath arg (outputDir cfg) (outputFormat cfg)),
         [MkdirAll (Dir (getOutputPath arg (outputDir cfg) (outputFormat cfg))),
          WriteFile (getOutputPath arg (outputDir cfg) (outputFormat cfg)) (Format f result)] @
         callIfNotNil cleanup))"
  by (simp add: pipeline_def Let_def)

text \<open>A successful resolution has not run any closure.\<close>

lemma Resolve_success_invoked:
  "Resolve h w arg = ((p, c, None), evs1) \<Longrightarrow> invoked evs1 = []"
  by (auto simp: Resolve_def resolveURL_def resolveLocalFile_def downloadDirect_def
      downloadWithYtDlp_def Let_def
      split: if_splits sum.splits option.splits stat_result.splits)

lemma Resolve_local:
  "\<not> isURL arg \<Longrightarrow> fst (snd (fst (Resolve h w arg))) = None \<and> snd (Resolve h w arg) = []"
  by (auto simp: Resolve_def resolveLocalFile_def Let_def split: stat_result.splits)

lemma iteration_events:
  "snd (snd (iteration cfg h f i arg w (errs, t, evs))) = evs @ itemEvents cfg h f arg w"
  by (auto simp: iteration_def itemEvents_def Let_def split: prod.splits option.splits sum.splits)

lemma loop_events:
  "snd (snd (loop cfg h f i items st)) =
     snd (snd st) @ concat (map (\<lambda>(arg, w). itemEvents cfg h f arg w) items)"
proof (induction items arbitrary: i st)
  case Nil
  then show ?case by simp
next
  case (Cons item items)
  obtain arg w where item: "item = (arg, w)" by (cases item)
  obtain errs t evs where st: "st = (errs, t, evs)" by (cases st)
  show ?case
    using Cons.IH [of "Suc i" "iteration cfg h f i arg w (errs, t, evs)"]
      iteration_events [of cfg h f i arg w errs t evs] item st
    by simp
qed

text \<open>
  Claim C1. The calls of a batch are the calls of its passes, one pass for each input,
  in order. In the pass for an input whose resolution succeeded with a closure, that
  closure is run exactly once, whichever of the four ways the pass ends (the
  transcription fails, the directory cannot be created, the file cannot be written, or
  all succeed); when the resolution succeeded without a closure, none is run. An input
  that is not a URL is resolved as a local file: its cleanup is nil and its pass removes
  nothing.
\<close>

theorem cleanup_exactly_once:
  "snd (snd (loop cfg h f i items st)) =
     snd (snd st) @ concat (map (\<lambda>(arg, w). itemEvents cfg h f arg w) items) \<and>
   (\<forall>p c evs1. Resolve h w arg = ((p, Some c, None), evs1) \<longrightarrow>
      invoked (itemEvents cfg h f arg w) = [c]) \<and>
   (\<forall>p evs1. Resolve h w arg = ((p, None, None), evs1) \<longrightarrow>
      invoked (itemEvents cfg h f arg w) = []) \<and>
   (\<not> isURL arg \<longrightarrow>
      fst (snd (fst (Resolve h w arg))) = None \<and> invoked (itemEvents cfg h f arg w) = [])"
proof -
  have some: "invoked (itemEvents cfg h f arg w) = [c]"
    if "Resolve h w arg = ((p, Some c, None), evs1)" for p c evs1
    using that Resolve_success_invoked [OF that]
    by (simp add: itemEvents_def invoked_append pipeline_invoked)
  have none: "invoked (itemEvents cfg h f arg w) = []"
    if "Resolve h w arg = ((p, None, None), evs1)" for p evs1
    using that Resolve_success_invoked [OF that]
    by (simp add: itemEvents_def invoked_append pipeline_invoked)
  have local: "fst (snd (fst (Resolve h w arg))) = None \<and> invoked (itemEvents cfg h f arg w) = []"
    if "\<not> isURL arg"
  proof -
    obtain p c e evs1 where r: "Resolve h w arg = ((p, c, e), evs1)"
      by (metis prod.exhaust)
    with Resolve_local [OF that, of h w] have c: "c = None" and evs1: "evs1 = []" by simp_all
    show ?thesis
    proof (cases e)
      case None
      with r c none show ?thesis by simp
    next
      case (Some err)
      with r c evs1 show ?thesis by (simp add: itemEvents_def)
    qed
  qed
  from loop_events [of cfg h f i items st] some none local show ?thesis by blast
qed

lemma failing_transcription:
  "Resolve (NewHandler False) (calm\<lparr>http := [Answer mpegResponse],
       transcribe := (\<lambda>audioPath language prompt. Inl ''API error (status 401)'')\<rparr>)
     ''https://example.com/download?id=7'' =
     ((''/tmp/whisper-lrc-314159.mp3'', Some (RemoveFile ''/tmp/whisper-lrc-314159.mp3''), None),
      [CreateTemp ''/tmp/whisper-lrc-314159.mp3''])"
  by code_simp

theorem cleanup_exactly_once_witness:
  "invoked (itemEvents plainConfig (NewHandler False) LRCFormatter
     ''https://example.com/download?id=7''
     (calm\<lparr>http := [Answer mpegResponse],
       transcribe := (\<lambda>audioPath language prompt. Inl ''API error (status 401)'')\<rparr>)) =
     [RemoveFile ''/tmp/whisper-lrc-314159.mp3''] \<and>
   \<not> isURL ''music/one.mp3'' \<and>
   fst (snd (fst (Resolve (NewHandler False) calm ''music/one.mp3''))) = None \<and>
   invoked (itemEvents plainConfig (NewHandler False) LRCFormatter ''music/one.mp3'' calm) = []"
proof -
  have l: "\<not> isURL ''music/one.mp3''" by code_simp
  from cleanup_exactly_once [of plainConfig "NewHandler False" LRCFormatter 0 "[]" "([], NewTracker 0, [])"
      "calm\<lparr>http := [Answer mpegResponse],
        transcribe := (\<lambda>audioPath language prompt. Inl ''API error (status 401)'')\<rparr>"
      "''https://example.com/download?id=7''"] failing_transcription
  have a: "invoked (itemEvents plainConfig (NewHandler False) LRCFormatter
     ''https://example.com/download?id=7''
     (calm\<lparr>http := [Answer mpegResponse],
       transcribe := (\<lambda>audioPath language prompt. Inl ''API error (status 401)'')\<rparr>)) =
     [RemoveFile ''/tmp/whisper-lrc-314159.mp3'']"
    by blast
  from cleanup_exactly_once [of plainConfig "NewHandler False" LRCFormatter 0 "[]" "([], NewTracker 0, [])"
      calm "''music/one.mp3''"] l
  have b: "fst (snd (fst (Resolve (NewHandler False) calm ''music/one.mp3''))) = None \<and>
    invoked (itemEvents plainConfig (NewHandler False) LRCFormatter ''music/one.mp3'' calm) = []"
    by blast
  from a l b show ?thesis by blast
qed

section \<open>The formatters\<close>

lemma rick_lrc:
  "lrcLines rickSegments =
     ''[00:00.50]Never gonna give you up'' @ nl @ ''[00:03.20]Never gonna let you down'' @ nl"
  by code_simp

lemma rick_srt:
  "srtBlocks 0 rickSegments =
     ''1'' @ nl @ ''00:00:00,500 --> 00:00:03,200'' @ nl @ ''Never gonna give you up'' @ nl @ nl @
     ''2'' @ nl @ ''00:00:03,200 --> 00:00:05,800'' @ nl @ ''Never gonna let you down'' @ nl @ nl"
  by code_simp

text \<open>
  Claim C8. For the transcript whose segments are 0.5 to 3.2 seconds, "Never gonna give
  you up", and 3.2 to 5.8 seconds, "Never gonna let you down" (the times being the
  doubles nearest to these decimals), the LRC document is the header, the language tag
  if the language is known, an empty line, and the two lines
  \<open>[00:00.50]Never gonna give you up\<close> and \<open>[00:03.20]Never gonna let you down\<close>; the
  SRT document is the two numbered blocks with the time lines
  \<open>00:00:00,500 --> 00:00:03,200\<close> and \<open>00:00:03,200 --> 00:00:05,800\<close>.
\<close>

theorem Format_example:
  "Format LRCFormatter \<lparr>FullText = txt, Language = lang, Segments = rickSegments\<rparr> =
     ''[re:whisper-lrc]'' @ nl @
     (if lang \<noteq> [] then ''[la:'' @ lang @ '']'' @ nl else []) @ nl @
     ''[00:00.50]Never gonna give you up'' @ nl @
     ''[00:03.20]Never gonna let you down'' @ nl \<and>
   Format SRTFormatter \<lparr>FullText = txt, Language = lang, Segments = rickSegments\<rparr> =
     ''1'' @ nl @ ''00:00:00,500 --> 00:00:03,200'' @ nl @ ''Never gonna give you up'' @ nl @ nl @
     ''2'' @ nl @ ''00:00:03,200 --> 00:00:05,800'' @ nl @ ''Never gonna let you down'' @ nl @ nl"
  by (simp add: LRCFormat_def SRTFormat_def rick_lrc rick_srt)



section \<open>The output path\<close>

lemma splitSlash_plain: "CHR ''/'' \<notin> set f \<Longrightarrow> splitSlash f = [f]"
  by (induction f) (auto split: list.splits)

lemma splitSlash_nonempty: "splitSlash s \<noteq> []"
  by (induction s) (auto split: list.splits)

lemma splitSlash_append:
  "CHR ''/'' \<notin> set f \<Longrightarrow> splitSlash (a @ CHR ''/'' # f) = splitSlash a @ [f]"
proof (induction a)
  case Nil
  then show ?case by (simp add: splitSlash_plain)
next
  case (Cons c a)
  then show ?case
    using splitSlash_nonempty [of a] by (cases "splitSlash a") simp_all
qed

lemma splitSlash_no_slash: "e \<in> set (splitSlash s) \<Longrightarrow> CHR ''/'' \<notin> set e"
  by (induction s arbitrary: e) (auto split: if_splits list.splits)

lemma cleanElems_snoc:
  "f \<noteq> [] \<Longrightarrow> f \<noteq> ''.'' \<Longrightarrow> f \<noteq> ''..'' \<Longrightarrow>
   cleanElems r (es @ [f]) out = cleanElems r es out @ [f]"
  by (induction es arbitrary: out) (auto split: list.splits)

lemma cleanElems_elems:
  "list_all (\<lambda>e. CHR ''/'' \<notin> set e) es \<Longrightarrow>
   list_all (\<lambda>e. e \<noteq> [] \<and> e \<noteq> ''.'' \<and> CHR ''/'' \<notin> set e) out \<Longrightarrow>
   list_all (\<lambda>e. e \<noteq> [] \<and> e \<noteq> ''.'' \<and> CHR ''/'' \<notin> set e) (cleanElems r es out)"
proof (induction es arbitrary: out)
  case Nil
  then show ?case by simp
next
  case (Cons a es)
  from Cons.prems have es: "list_all (\<lambda>e. CHR ''/'' \<notin> set e) es" and a: "CHR ''/'' \<notin> set a"
    by simp_all
  note IH = Cons.IH [OF es]
  show ?case
  proof (cases "a = [] \<or> a = ''.''")
    case True
    then show ?thesis using IH [OF Cons.prems(2)] by auto
  next
    case na: False
    show ?thesis
    proof (cases "a = ''..''")
      case False
      with na a Cons.prems(2) have "list_all (\<lambda>e. e \<noteq> [] \<and> e \<noteq> ''.'' \<and> CHR ''/'' \<notin> set e) (a # out)"
        by simp
      from IH [OF this] na False show ?thesis by simp
    next
      case dd: True
      show ?thesis
      proof (cases out)
        case Nil
        have "list_all (\<lambda>e. e \<noteq> [] \<and> e \<noteq> ''.'' \<and> CHR ''/'' \<notin> set e) [''..'']" by simp
        from IH [OF this] IH [of "[]"] dd Nil show ?thesis by (cases r) simp_all
      next
        case (Cons x xs)
        with Cons.prems(2)
        have 1: "list_all (\<lambda>e. e \<noteq> [] \<and> e \<noteq> ''.'' \<and> CHR ''/'' \<notin> set e) xs"
          and 2: "list_all (\<lambda>e. e \<noteq> [] \<and> e \<noteq> ''.'' \<and> CHR ''/'' \<notin> set e) (''..'' # x # xs)"
          by simp_all
        from IH [OF 1] IH [OF 2] dd Cons show ?thesis by (cases "x = ''..''") simp_all
      qed
    qed
  qed
qed

lemma joinSlash_snoc:
  "joinSlash (E @ [f]) = (if E = [] then f else joinSlash E @ ''/'' @ f)"
  by (induction E rule: joinSlash.induct) auto

lemma joinSlash_not_dot:
  assumes "E \<noteq> []" and "\<forall>e\<in>set E. e \<noteq> [] \<and> e \<noteq> ''.'' \<and> CHR ''/'' \<notin> set e"
  shows "joinSlash E \<noteq> [] \<and> joinSlash E \<noteq> ''.'' \<and> joinSlash E \<noteq> ''/''"
proof (cases E)
  case Nil
  with assms show ?thesis by simp
next
  case (Cons e es)
  show ?thesis
  proof (cases es)
    case Nil
    with Cons assms show ?thesis by auto
  next
    case (Cons e' es')
    with \<open>E = e # es\<close> assms have "joinSlash E = e @ ''/'' @ joinSlash es" "e \<noteq> []" by auto
    then show ?thesis by (cases e) auto
  qed
qed

lemma Join_plain:
  assumes d: "d \<noteq> []"
    and f: "f \<noteq> []" "f \<noteq> ''.''" "f \<noteq> ''..''" "CHR ''/'' \<notin> set f"
  shows "Join d f = place (Clean d) f"
proof -
  define p where "p = d @ ''/'' @ f"
  have split: "splitSlash p = splitSlash d @ [f]"
    using splitSlash_append [OF f(4), of d] by (simp add: p_def)
  have hd: "hd p = hd d" and ne: "p \<noteq> []" using d by (simp_all add: p_def)
  have el: "cleanElems r (splitSlash p) [] = cleanElems r (splitSlash d) [] @ [f]" for r
    unfolding split using cleanElems_snoc [OF f(1-3)] by simp
  have J: "Join d f = Clean p"
    using d by (simp add: Join_def p_def)
  have "list_all (\<lambda>e. CHR ''/'' \<notin> set e) (splitSlash d)"
    using splitSlash_no_slash [of _ d] by (simp add: list_all_iff)
  from cleanElems_elems [OF this, of "[]"]
  have E: "\<forall>e\<in>set (cleanElems r (splitSlash d) []). e \<noteq> [] \<and> e \<noteq> ''.'' \<and> CHR ''/'' \<notin> set e"
    for r
    by (simp add: list_all_iff)
  show ?thesis
  proof (cases "hd d = CHR ''/''")
    case True
    let ?E = "cleanElems True (splitSlash d) []"
    have Cp: "Clean p = CHR ''/'' # joinSlash (?E @ [f])"
      using ne True by (simp add: Clean_def Let_def hd el)
    have Cd: "Clean d = CHR ''/'' # joinSlash ?E"
      using d True by (simp add: Clean_def Let_def)
    show ?thesis
    proof (cases "?E = []")
      case True
      with J Cp Cd show ?thesis by (simp add: place_def)
    next
      case False
      from joinSlash_not_dot [OF False E] have "joinSlash ?E \<noteq> []" by simp
      with J Cp Cd False show ?thesis by (simp add: place_def joinSlash_snoc)
    qed
  next
    case False
    let ?E = "cleanElems False (splitSlash d) []"
    have nf: "joinSlash (?E @ [f]) \<noteq> []"
      using f(1) by (simp add: joinSlash_snoc)
    have Cp: "Clean p = joinSlash (?E @ [f])"
      using ne False nf by (simp add: Clean_def Let_def hd el)
    have Cd: "Clean d = (if joinSlash ?E = [] then ''.'' else joinSlash ?E)"
      using d False by (simp add: Clean_def Let_def)
    show ?thesis
    proof (cases "?E = []")
      case True
      with J Cp Cd show ?thesis by (simp add: place_def)
    next
      case False
      from joinSlash_not_dot [OF False E]
      have "joinSlash ?E \<noteq> []" "joinSlash ?E \<noteq> ''.''" "joinSlash ?E \<noteq> ''/''" by simp_all
      with J Cp Cd False show ?thesis by (simp add: place_def joinSlash_snoc)
    qed
  qed
qed


lemma Clean_nonempty: "Clean p \<noteq> []"
  by (simp add: Clean_def Let_def)

lemma Base_no_slash: "Base p \<noteq> ''/'' \<Longrightarrow> CHR ''/'' \<notin> set (Base p)"
  by (auto simp: Base_def Let_def split: if_splits dest: set_takeWhileD)

lemma TrimSuffix_subset: "set (TrimSuffix s x) \<subseteq> set s"
  by (auto simp: TrimSuffix_def dest: in_set_takeD)

text \<open>The name of the output file is a plain file name.\<close>

lemma output_name_plain:
  assumes "format = ''lrc'' \<or> format = ''srt''" and "CHR ''/'' \<notin> set name"
  shows "name @ ''.'' @ format \<noteq> [] \<and> name @ ''.'' @ format \<noteq> ''.'' \<and>
         name @ ''.'' @ format \<noteq> ''..'' \<and> CHR ''/'' \<notin> set (name @ ''.'' @ format)"
proof -
  have len: "length (name @ ''.'' @ format) \<ge> 4" using assms(1) by auto
  have a: "name @ ''.'' @ format \<noteq> []" by simp
  have b: "name @ ''.'' @ format \<noteq> ''.''"
  proof
    assume "name @ ''.'' @ format = ''.''"
    then have "length (name @ ''.'' @ format) = length ''.''" by (rule arg_cong)
    with len show False by simp
  qed
  have c: "name @ ''.'' @ format \<noteq> ''..''"
  proof
    assume "name @ ''.'' @ format = ''..''"
    then have "length (name @ ''.'' @ format) = length ''..''" by (rule arg_cong)
    with len show False by simp
  qed
  have d: "CHR ''/'' \<notin> set (name @ ''.'' @ format)" using assms by auto
  from a b c d show ?thesis by blast
qed


lemma HasPrefix_single: "HasPrefix (x # xs) [c] \<longleftrightarrow> x = c"
  by (simp add: HasPrefix_def)

lemma ReplaceAll_single:
  "ReplaceAll s [c] [u] = map (\<lambda>x. if x = c then u else x) s"
  by (induction s) (simp_all add: HasPrefix_single)

text \<open>
  The nine replacements of \<open>sanitizeFilename\<close>, one after the other, amount to the
  replacement of each of the nine characters by an underscore.
\<close>

lemma sanitizeFilename_map:
  "sanitizeFilename name =
     map (\<lambda>x. if x \<in> {CHR ''/'', CHR 0x5C, CHR '':'', CHR ''*'', CHR ''?'', CHR 0x22,
                         CHR ''<'', CHR ''>'', CHR ''|''}
               then CHR ''_'' else x) name"
  by (simp add: sanitizeFilename_def invalid_def ReplaceAll_single)

text \<open>
  Claim C7. For an input that is a URL, the base name of the output is the base name of
  the input (its last element without the extension) with each of the characters
  \<open>/ \ : * ? " < > |\<close> replaced by an underscore, or \<open>output\<close> when that is empty.
  The output file is \<open>filepath.Join\<close> of a directory and the base name, a dot and the
  format: the directory is the configured output directory if it is set, otherwise the
  current directory for a URL and the directory of the input for a local file. For the
  formats lrc and srt the joined path is the file of that name in the cleaned directory
  (for a local input, as long as the input does not consist of slashes only).
\<close>

theorem getOutputPath_shape:
  "(isURL input \<longrightarrow>
      (let name = map (\<lambda>x. if x \<in> {CHR ''/'', CHR 0x5C, CHR '':'', CHR ''*'', CHR ''?'',
                                       CHR 0x22, CHR ''<'', CHR ''>'', CHR ''|''}
                             then CHR ''_'' else x)
                     (TrimSuffix (Base input) (Ext (Base input)));
           base = (if name = [] then ''output'' else name);
           dir = (if outDir = [] then ''.'' else outDir)
       in getOutputPath input outDir format = Join dir (base @ ''.'' @ format) \<and>
          (format = ''lrc'' \<or> format = ''srt'' \<longrightarrow>
             getOutputPath input outDir format = place (Clean dir) (base @ ''.'' @ format)))) \<and>
   (\<not> isURL input \<longrightarrow>
      (let base = TrimSuffix (Base input) (Ext (Base input));
           dir = (if outDir = [] then Dir input else outDir)
       in getOutputPath input outDir format = Join dir (base @ ''.'' @ format) \<and>
          ((format = ''lrc'' \<or> format = ''srt'') \<and> Base input \<noteq> ''/'' \<longrightarrow>
             getOutputPath input outDir format = place (Clean dir) (base @ ''.'' @ format))))"
proof -
  let ?stem = "TrimSuffix (Base input) (Ext (Base input))"
  let ?name = "map (\<lambda>x. if x \<in> {CHR ''/'', CHR 0x5C, CHR '':'', CHR ''*'', CHR ''?'',
                                   CHR 0x22, CHR ''<'', CHR ''>'', CHR ''|''}
                         then CHR ''_'' else x) ?stem"
  let ?base = "if ?name = [] then ''output'' else ?name"
  let ?udir = "if outDir = [] then ''.'' else outDir"
  let ?ldir = "if outDir = [] then Dir input else outDir"
  have u: "getOutputPath input outDir format = Join ?udir (?base @ ''.'' @ format)"
    if "isURL input"
    using that by (simp add: getOutputPath_def Let_def sanitizeFilename_map)
  have l: "getOutputPath input outDir format = Join ?ldir (?stem @ ''.'' @ format)"
    if "\<not> isURL input"
    using that by (simp add: getOutputPath_def Let_def)
  have up: "getOutputPath input outDir format = place (Clean ?udir) (?base @ ''.'' @ format)"
    if url: "isURL input" and fmt: "format = ''lrc'' \<or> format = ''srt''"
  proof -
    have "CHR ''/'' \<notin> set ?base" by auto
    from output_name_plain [OF fmt this] have plain:
      "?base @ ''.'' @ format \<noteq> []" "?base @ ''.'' @ format \<noteq> ''.''"
      "?base @ ''.'' @ format \<noteq> ''..''" "CHR ''/'' \<notin> set (?base @ ''.'' @ format)"
      by blast+
    have "?udir \<noteq> []" by simp
    from Join_plain [OF this plain] u [OF url] show ?thesis by simp
  qed
  have lp: "getOutputPath input outDir format = place (Clean ?ldir) (?stem @ ''.'' @ format)"
    if loc: "\<not> isURL input" and fmt: "format = ''lrc'' \<or> format = ''srt''"
      and b: "Base input \<noteq> ''/''"
  proof -
    have "CHR ''/'' \<notin> set ?stem"
      using Base_no_slash [OF b] TrimSuffix_subset [of "Base input" "Ext (Base input)"] by blast
    from output_name_plain [OF fmt this] have plain:
      "?stem @ ''.'' @ format \<noteq> []" "?stem @ ''.'' @ format \<noteq> ''.''"
      "?stem @ ''.'' @ format \<noteq> ''..''" "CHR ''/'' \<notin> set (?stem @ ''.'' @ format)"
      by blast+
    have "?ldir \<noteq> []" using Clean_nonempty by (simp add: Dir_def)
    from Join_plain [OF this plain] l [OF loc] show ?thesis by simp
  qed
  from u l up lp show ?thesis unfolding Let_def by blast
qed

theorem getOutputPath_shape_witness:
  "isURL ''https://youtube.com/watch?v=abc:d*'' \<and>
   getOutputPath ''https://youtube.com/watch?v=abc:d*'' ''./lyrics'' ''srt'' =
     ''lyrics/watch_v=abc_d_.srt'' \<and>
   isURL ''https://example.com/.mp3'' \<and>
   getOutputPath ''https://example.com/.mp3'' [] ''lrc'' = ''output.lrc'' \<and>
   \<not> isURL ''music/album/song.flac'' \<and> Base ''music/album/song.flac'' \<noteq> ''/'' \<and>
   getOutputPath ''music/album/song.flac'' [] ''lrc'' = ''music/album/song.lrc''"
proof -
  have u1: "isURL ''https://youtube.com/watch?v=abc:d*''"
    and u2: "isURL ''https://example.com/.mp3''"
    and u3: "\<not> isURL ''music/album/song.flac''"
    and b3: "Base ''music/album/song.flac'' \<noteq> ''/''"
    by code_simp+
  have j1: "place (Clean (if ''./lyrics'' = [] then ''.'' else ''./lyrics''))
      ((if map (\<lambda>x. if x \<in> {CHR ''/'', CHR 0x5C, CHR '':'', CHR ''*'', CHR ''?'',
                                 CHR 0x22, CHR ''<'', CHR ''>'', CHR ''|''}
                       then CHR ''_'' else x)
               (TrimSuffix (Base ''https://youtube.com/watch?v=abc:d*'')
                  (Ext (Base ''https://youtube.com/watch?v=abc:d*''))) = []
        then ''output''
        else map (\<lambda>x. if x \<in> {CHR ''/'', CHR 0x5C, CHR '':'', CHR ''*'', CHR ''?'',
                                   CHR 0x22, CHR ''<'', CHR ''>'', CHR ''|''}
                         then CHR ''_'' else x)
               (TrimSuffix (Base ''https://youtube.com/watch?v=abc:d*'')
                  (Ext (Base ''https://youtube.com/watch?v=abc:d*'')))) @ ''.'' @ ''srt'') =
      ''lyrics/watch_v=abc_d_.srt''"
    by code_simp
  have j2: "place (Clean (if [] = [] then ''.'' else []))
      ((if map (\<lambda>x. if x \<in> {CHR ''/'', CHR 0x5C, CHR '':'', CHR ''*'', CHR ''?'',
                                 CHR 0x22, CHR ''<'', CHR ''>'', CHR ''|''}
                       then CHR ''_'' else x)
               (TrimSuffix (Base ''https://example.com/.mp3'')
                  (Ext (Base ''https://example.com/.mp3''))) = []
        then ''output''
        else map (\<lambda>x. if x \<in> {CHR ''/'', CHR 0x5C, CHR '':'', CHR ''*'', CHR ''?'',
                                   CHR 0x22, CHR ''<'', CHR ''>'', CHR ''|''}
                         then CHR ''_'' else x)
               (TrimSuffix (Base ''https://example.com/.mp3'')
                  (Ext (Base ''https://example.com/.mp3'')))) @ ''.'' @ ''lrc'') =
      ''output.lrc''"
    by code_simp
  have j3: "place (Clean (if [] = [] then Dir ''music/album/song.flac'' else []))
      (TrimSuffix (Base ''music/album/song.flac'') (Ext (Base ''music/album/song.flac'')) @
       ''.'' @ ''lrc'') = ''music/album/song.lrc''"
    by code_simp
  from getOutputPath_shape [of "''https://youtube.com/watch?v=abc:d*''" "''./lyrics''" "''srt''"] u1
  have r1: "getOutputPath ''https://youtube.com/watch?v=abc:d*'' ''./lyrics'' ''srt'' =
      ''lyrics/watch_v=abc_d_.srt''"
    unfolding Let_def j1 by blast
  from getOutputPath_shape [of "''https://example.com/.mp3''" "[]" "''lrc''"] u2
  have r2: "getOutputPath ''https://example.com/.mp3'' [] ''lrc'' = ''output.lrc''"
    unfolding Let_def j2 by blast
  from getOutputPath_shape [of "''music/album/song.flac''" "[]" "''lrc''"] u3 b3
  have r3: "getOutputPath ''music/album/song.flac'' [] ''lrc'' = ''music/album/song.lrc''"
    unfolding Let_def j3 by blast
  from u1 u2 u3 b3 r1 r2 r3 show ?thesis by blast
qed

end
